theory Spec2Isabelle
  imports Complex_Main "HOL-Library.AList" "HOL-Library.Char_ord" "HOL-Library.List_Lexorder"
begin

unbundle bit_operations_syntax

section \<open>Python values, errors and dictionaries\<close>

text \<open>
  The state aggregator of the dashboard (\<^verbatim>\<open>dashboard/state_aggregator.py\<close>) works on
  untyped Python dictionaries. A value is one of the shapes that the protobuf-to-dict
  conversion produces, plus \<open>PObj\<close> for an opaque object (a \<^verbatim>\<open>JobInfo\<close>). A dictionary
  is an association list in insertion order; \<open>AList.update\<close> keeps the position of a key
  that is already there and appends a new key, as Python's \<^verbatim>\<open>d[k] = v\<close> does.
  \<open>PDefaultDict v kvs\<close> is a \<^verbatim>\<open>collections.defaultdict\<close> whose factory returns \<open>v\<close>
  (\<open>PInt 0\<close> for \<^verbatim>\<open>defaultdict(int)\<close>, \<open>PDict []\<close> for \<^verbatim>\<open>defaultdict(dict)\<close>). Floats are
  not values of the model; the numbers of the resource summary are rationals.
\<close>

datatype pyval =
    PNone
  | PBool bool
  | PInt int
  | PStr string
  | PList "pyval list"
  | PDict "(pyval \<times> pyval) list"
  | PDefaultDict pyval "(pyval \<times> pyval) list"
  | PObj string

type_synonym pydict = "(pyval \<times> pyval) list"

text \<open>Every exception that the modelled code can raise is a value.\<close>

datatype error =
    KeyError pyval
  | AttributeError
  | TypeError
  | ValueError
  | ZeroDivisionError
  | Raised string  \<comment> \<open>an exception raised inside an external collaborator\<close>

definition ebind :: "error + 'a \<Rightarrow> ('a \<Rightarrow> error + 'b) \<Rightarrow> error + 'b" where
  "ebind m f = (case m of Inl e \<Rightarrow> Inl e | Inr x \<Rightarrow> f x)"

text \<open>
  A loop that appends \<open>f x\<close> for every \<open>x\<close>, and a loop that threads a state: the
  first exception aborts either.
\<close>

fun emap :: "('a \<Rightarrow> error + 'b) \<Rightarrow> 'a list \<Rightarrow> error + 'b list" where
  "emap f [] = Inr []"
| "emap f (x # xs) =
     (case f x of Inl e \<Rightarrow> Inl e
      | Inr y \<Rightarrow> (case emap f xs of Inl e \<Rightarrow> Inl e | Inr ys \<Rightarrow> Inr (y # ys)))"

fun efold :: "('a \<Rightarrow> 's \<Rightarrow> error + 's) \<Rightarrow> 'a list \<Rightarrow> 's \<Rightarrow> error + 's" where
  "efold f [] s = Inr s"
| "efold f (x # xs) s = (case f x s of Inl e \<Rightarrow> Inl e | Inr s' \<Rightarrow> efold f xs s')"

text \<open>Python truthiness, as tested by \<^verbatim>\<open>not x\<close>.\<close>

fun truthy :: "pyval \<Rightarrow> bool" where
  "truthy PNone = False"
| "truthy (PBool b) = b"
| "truthy (PInt i) = (i \<noteq> 0)"
| "truthy (PStr s) = (s \<noteq> [])"
| "truthy (PList xs) = (xs \<noteq> [])"
| "truthy (PDict kvs) = (kvs \<noteq> [])"
| "truthy (PDefaultDict dflt kvs) = (kvs \<noteq> [])"
| "truthy (PObj n) = True"

text \<open>\<^verbatim>\<open>d.get(column)\<close>: only a dictionary has the method; a missing key gives \<^verbatim>\<open>None\<close>.\<close>

fun py_get :: "pyval \<Rightarrow> string \<Rightarrow> error + pyval" where
  "py_get (PDict kvs) column =
     Inr (case map_of kvs (PStr column) of None \<Rightarrow> PNone | Some v \<Rightarrow> v)"
| "py_get (PDefaultDict dflt kvs) column =
     Inr (case map_of kvs (PStr column) of None \<Rightarrow> PNone | Some v \<Rightarrow> v)"
| "py_get v column = Inl AttributeError"

text \<open>The keys a dictionary accepts: lists and dictionaries are unhashable.\<close>

fun hashable :: "pyval \<Rightarrow> bool" where
  "hashable (PList xs) = False"
| "hashable (PDict kvs) = False"
| "hashable (PDefaultDict dflt kvs) = False"
| "hashable v = True"

text \<open>
  \<^verbatim>\<open>c[k]\<close> as an expression, with the container as it is afterwards: a missing key
  raises \<^verbatim>\<open>KeyError\<close> in a plain dictionary and is inserted with the factory's value
  in a \<^verbatim>\<open>defaultdict\<close>. Every key used by the program is a string or taken from a
  record, so on a value that is not a dictionary the subscript raises \<^verbatim>\<open>TypeError\<close>.
\<close>

fun item :: "pyval \<Rightarrow> pyval \<Rightarrow> error + (pyval \<times> pyval)" where
  "item (PDict kvs) k =
     (if \<not> hashable k then Inl TypeError
      else case map_of kvs k of
             None \<Rightarrow> Inl (KeyError k)
           | Some v \<Rightarrow> Inr (v, PDict kvs))"
| "item (PDefaultDict dflt kvs) k =
     (if \<not> hashable k then Inl TypeError
      else case map_of kvs k of
             None \<Rightarrow> Inr (dflt, PDefaultDict dflt (AList.update k dflt kvs))
           | Some v \<Rightarrow> Inr (v, PDefaultDict dflt kvs))"
| "item c k = Inl TypeError"

text \<open>\<^verbatim>\<open>d[key]\<close> where the container is not used again.\<close>

definition getitem :: "pyval \<Rightarrow> pyval \<Rightarrow> error + pyval" where
  "getitem c k = (case item c k of Inl e \<Rightarrow> Inl e | Inr (v, c') \<Rightarrow> Inr v)"

text \<open>\<^verbatim>\<open>c[k] = v\<close>, on a model dictionary and on a raw association list.\<close>

fun store :: "pyval \<Rightarrow> pyval \<Rightarrow> pyval \<Rightarrow> error + pyval" where
  "store (PDict kvs) k v =
     (if hashable k then Inr (PDict (AList.update k v kvs)) else Inl TypeError)"
| "store (PDefaultDict dflt kvs) k v =
     (if hashable k then Inr (PDefaultDict dflt (AList.update k v kvs)) else Inl TypeError)"
| "store c k v = Inl TypeError"

definition setitem :: "pydict \<Rightarrow> pyval \<Rightarrow> pyval \<Rightarrow> error + pydict" where
  "setitem d k v = (if hashable k then Inr (AList.update k v d) else Inl TypeError)"

text \<open>
  \<^verbatim>\<open>c[k]... = ...\<close>: the object \<^verbatim>\<open>c[k]\<close> is looked up, mutated by \<open>f\<close>, and
  stays where it is in \<open>c\<close>. No object of the program is reachable along two paths,
  so writing the mutated object back is what the in-place mutation does.
\<close>

definition at_key :: "pyval \<Rightarrow> pyval \<Rightarrow> (pyval \<Rightarrow> error + pyval) \<Rightarrow> error + pyval" where
  "at_key c k f =
     (case item c k of
        Inl e \<Rightarrow> Inl e
      | Inr (v, c') \<Rightarrow> (case f v of Inl e \<Rightarrow> Inl e | Inr v' \<Rightarrow> store c' k v'))"

text \<open>\<^verbatim>\<open>x + 1\<close> and \<^verbatim>\<open>c[k] += 1\<close>.\<close>

fun py_add1 :: "pyval \<Rightarrow> error + pyval" where
  "py_add1 (PInt i) = Inr (PInt (i + 1))"
| "py_add1 (PBool b) = Inr (PInt ((if b then 1 else 0) + 1))"
| "py_add1 v = Inl TypeError"

definition incr :: "pyval \<Rightarrow> pyval \<Rightarrow> error + pyval" where
  "incr c k =
     (case item c k of
        Inl e \<Rightarrow> Inl e
      | Inr (v, c') \<Rightarrow> (case py_add1 v of Inl e \<Rightarrow> Inl e | Inr v' \<Rightarrow> store c' k v'))"

text \<open>
  \<^verbatim>\<open>k in c\<close>: key membership for a dictionary (it never inserts), element membership
  for a list, substring for two strings.
\<close>

fun contains :: "pyval \<Rightarrow> pyval \<Rightarrow> error + bool" where
  "contains (PDict kvs) k =
     (if hashable k then Inr (map_of kvs k \<noteq> None) else Inl TypeError)"
| "contains (PDefaultDict dflt kvs) k =
     (if hashable k then Inr (map_of kvs k \<noteq> None) else Inl TypeError)"
| "contains (PList xs) k = Inr (List.member xs k)"
| "contains (PStr s) (PStr t) =
     Inr (list_ex (\<lambda>i. take (length t) (drop i s) = t) [0..<Suc (length s)])"
| "contains c k = Inl TypeError"

text \<open>\<^verbatim>\<open>d.values()\<close>: only a dictionary has the method.\<close>

fun py_values :: "pyval \<Rightarrow> error + pyval list" where
  "py_values (PDict kvs) = Inr (map snd kvs)"
| "py_values (PDefaultDict dflt kvs) = Inr (map snd kvs)"
| "py_values v = Inl AttributeError"

text \<open>
  \<^verbatim>\<open>for d in data\<close>: a list yields its elements, a dictionary its keys, a string its
  characters; nothing else is iterable.
\<close>

fun py_iter :: "pyval \<Rightarrow> error + pyval list" where
  "py_iter (PList xs) = Inr xs"
| "py_iter (PDict kvs) = Inr (map fst kvs)"
| "py_iter (PDefaultDict dflt kvs) = Inr (map fst kvs)"
| "py_iter (PStr s) = Inr (map (\<lambda>c. PStr [c]) s)"
| "py_iter v = Inl TypeError"

text \<open>\<^verbatim>\<open>s.split(sep)\<close> for a one-character separator: \<^verbatim>\<open>"".split(",") == [""]\<close>.\<close>

fun py_split :: "char \<Rightarrow> string \<Rightarrow> string list" where
  "py_split sep [] = [[]]"
| "py_split sep (x # xs) =
     (if x = sep then [] # py_split sep xs
      else (case py_split sep xs of [] \<Rightarrow> [[x]] | w # ws \<Rightarrow> (x # w) # ws))"

section \<open>The filter engine\<close>

text \<open>
  \<^verbatim>\<open>StateAPIManager._filter\<close>, lines 80 to 102. The first loop builds \<^verbatim>\<open>kv_filters\<close>:
  a clause is kept when splitting it at every \<^verbatim>\<open>=\<close> gives exactly two tokens, and a
  later clause for the same field overwrites the earlier one.
\<close>

fun kv_filters_loop :: "string list \<Rightarrow> (string \<times> string) list \<Rightarrow> (string \<times> string) list" where
  "kv_filters_loop [] kv_filters = kv_filters"
| "kv_filters_loop (kv # kvs) kv_filters =
     (let result = py_split CHR ''='' kv in
      if length result = 2
      then kv_filters_loop kvs (AList.update (result ! 0) (result ! 1) kv_filters)
      else kv_filters_loop kvs kv_filters)"

text \<open>
  The inner loop over \<^verbatim>\<open>kv_filters.items()\<close>: a falsy field value ends the loop with
  \<^verbatim>\<open>match = False\<close>; a value different from the clause's sets \<^verbatim>\<open>match = False\<close> and
  goes on.
\<close>

fun match_loop :: "pyval \<Rightarrow> (string \<times> string) list \<Rightarrow> bool \<Rightarrow> error + bool" where
  "match_loop d [] match = Inr match"
| "match_loop d ((column, val) # kvs) match =
     (case py_get d column of
        Inl e \<Rightarrow> Inl e
      | Inr data \<Rightarrow>
          if \<not> truthy data then Inr False
          else if data \<noteq> PStr val then match_loop d kvs False
          else match_loop d kvs match)"

fun matched_loop :: "(string \<times> string) list \<Rightarrow> pyval list \<Rightarrow> pyval list \<Rightarrow> error + pyval list" where
  "matched_loop kv_filters [] matched_result = Inr matched_result"
| "matched_loop kv_filters (d # ds) matched_result =
     (case match_loop d kv_filters True of
        Inl e \<Rightarrow> Inl e
      | Inr match \<Rightarrow>
          matched_loop kv_filters ds (if match then matched_result @ [d] else matched_result))"

definition filter_kv :: "string \<Rightarrow> pyval \<Rightarrow> error + pyval list" where
  "filter_kv filters data =
     (let kvs = py_split CHR '','' filters;
          kv_filters = kv_filters_loop kvs []
      in ebind (py_iter data) (\<lambda>items. matched_loop kv_filters items []))"

text \<open>
  Filter strings as the specification describes them: clauses joined by commas, a
  well-formed clause being \<open>k=v\<close> with both tokens non-empty and free of \<open>,\<close> and \<open>=\<close>.
  These definitions state the claims about the filter engine; they are not part of the
  program.
\<close>

fun join_with :: "char \<Rightarrow> string list \<Rightarrow> string" where
  "join_with sep [] = []"
| "join_with sep [x] = x"
| "join_with sep (x # y # ys) = x @ sep # join_with sep (y # ys)"

definition clause :: "string \<times> string \<Rightarrow> string" where
  "clause kv = fst kv @ CHR ''='' # snd kv"

definition mk_filter :: "(string \<times> string) list \<Rightarrow> string" where
  "mk_filter cs = join_with CHR '','' (map clause cs)"

definition wf_token :: "string \<Rightarrow> bool" where
  "wf_token t = (t \<noteq> [] \<and> CHR '','' \<notin> set t \<and> CHR ''='' \<notin> set t)"

section \<open>Options, results and warnings\<close>

text \<open>
  \<^verbatim>\<open>ListApiOptions\<close> is imported by the file; these are the three fields that the
  program reads. The field \<^verbatim>\<open>filter\<close> is \<open>filter_string\<close> here, and \<^verbatim>\<open>_filter\<close> is
  \<open>filter_kv\<close>.
\<close>

record ListApiOptions =
  limit :: int
  timeout :: int
  filter_string :: string

text \<open>
  \<^verbatim>\<open>StateApiResult\<close>, lines 30 to 35: both fields default to \<^verbatim>\<open>None\<close>. \<open>data\<close> is a
  Python value (\<open>PNone\<close>, a dictionary or a list).
\<close>

record StateApiResult =
  data :: pyval
  warnings :: "string list option"

text \<open>Decimal digits of a natural number, as \<^verbatim>\<open>str.format\<close> prints a count.\<close>

fun str_nat :: "nat \<Rightarrow> string" where
  "str_nat n =
     (if n < 10 then [''0123456789'' ! n]
      else str_nat (n div 10) @ [''0123456789'' ! (n mod 10)])"

definition GCS_QUERY_FAILURE_WARNING :: string where
  "GCS_QUERY_FAILURE_WARNING =
     ''Failed to query data from GCS. It is due to '' @
     ''(1) GCS is unexpectedly failed. '' @
     ''(2) GCS is overloaded by lots of work. '' @
     ''(3) There's an uexpected network issues. Please check the GCS logs to '' @
     ''find the root cause.''"

definition RAYLET_QUERY_FAILURE_WARNING :: "nat \<Rightarrow> nat \<Rightarrow> string" where
  "RAYLET_QUERY_FAILURE_WARNING total' network_failures =
     ''Failed to query data from some raylets. You might have data loss. '' @
     ''Queryed '' @ str_nat total' @ '' raylets '' @
     ''and '' @ str_nat network_failures @ '' raylets failed to reply. It is due to '' @
     ''(1) Raylet is unexpectedly failed. '' @
     ''(2) Raylet is overloaded by lots of work. '' @
     ''(3) There's an uexpected network issues. Please check the Raylet logs to '' @
     ''find the root cause.''"

definition AGENT_QUERY_FAILURE_WARNING :: "nat \<Rightarrow> nat \<Rightarrow> string" where
  "AGENT_QUERY_FAILURE_WARNING total' network_failures =
     ''Failed to query data from some Ray agents. You might have data loss. '' @
     ''Queryed '' @ str_nat total' @ '' Ray agents '' @
     ''and '' @ str_nat network_failures @ '' Ray agents failed to reply. It is due to '' @
     ''(1) Ray agent is unexpectedly failed. '' @
     ''(2) Ray agent is overloaded by lots of work. '' @
     ''(3) There's an uexpected network issues. Please check the Ray agent logs to '' @
     ''find the root cause.''"

section \<open>External collaborators\<close>

text \<open>
  The data source client (\<^verbatim>\<open>self._client\<close>) is not part of the file: it is a parameter.
  A call either raises or returns a reply; a reply is \<open>None\<close> when it is falsy, and
  otherwise the list of messages of the one repeated field that the program reads
  (\<^verbatim>\<open>actor_table_data\<close>, \<^verbatim>\<open>task_info_entries\<close>, ...). The type \<open>'m\<close> is the type of
  protobuf messages.
\<close>

record 'm StateDataSourceClient =
  get_all_actor_info :: "int \<Rightarrow> error + 'm list option"
  get_all_placement_group_info :: "int \<Rightarrow> error + 'm list option"
  get_all_node_info :: "int \<Rightarrow> error + 'm list option"
  get_all_worker_info :: "int \<Rightarrow> error + 'm list option"
  get_job_info :: "error + pyval"
  get_all_registered_raylet_ids :: "string list"
  get_all_registered_agent_ids :: "string list"
  get_task_info :: "string \<Rightarrow> int \<Rightarrow> error + 'm list option"
  get_object_info :: "string \<Rightarrow> int \<Rightarrow> error + 'm list option"
  get_runtime_envs_info :: "string \<Rightarrow> int \<Rightarrow> error + 'm list option"

text \<open>The state dataclasses that \<^verbatim>\<open>filter_fields\<close> is called with.\<close>

datatype state_schema =
    ActorState
  | PlacementGroupState
  | NodeState
  | WorkerState
  | TaskState
  | ObjectState
  | RuntimeEnvState

text \<open>
  The per-node resource summary of \<^verbatim>\<open>DataOrganizer.get_all_node_summary\<close>, as the fields
  that \<^verbatim>\<open>summary\<close> reads: \<open>disk_root_percent\<close> is \<^verbatim>\<open>["disk"]["/"]["percent"]\<close> and \<open>mem2\<close>
  is \<^verbatim>\<open>["mem"][2]\<close>. The two object store fields are optional: the program reads the
  first with \<^verbatim>\<open>.get(..., 0)\<close> and the second with a subscript.
\<close>

record raylet_summary =
  nodeId :: string
  object_store_used_memory :: "rat option"
  object_store_available_memory :: "rat option"

record node_summary =
  raylet :: raylet_summary
  cpu :: rat
  disk_root_percent :: rat
  diskIoSpeed :: "rat \<times> rat"
  networkSpeed :: "rat \<times> rat"
  mem2 :: rat

text \<open>
  The imported functions, parameters as well: the protobuf conversion
  \<^verbatim>\<open>dashboard_utils.message_to_dict\<close> (message, fields to decode, including default value
  fields, preserving the proto field name), \<^verbatim>\<open>filter_fields\<close>,
  \<^verbatim>\<open>memory_utils.construct_memory_table\<close> followed by \<^verbatim>\<open>as_dict\<close> on every entry of the
  table, \<^verbatim>\<open>RuntimeEnv.deserialize(...).to_dict()\<close>, the resource summary provider, and
  the two floating point operations of the summary (printing a number, rounding it to
  three decimals).
\<close>

record 'm collaborators =
  message_to_dict :: "'m \<Rightarrow> string list \<Rightarrow> bool \<Rightarrow> bool \<Rightarrow> error + pydict"
  filter_fields :: "pydict \<Rightarrow> state_schema \<Rightarrow> error + pydict"
  construct_memory_table :: "pydict list \<Rightarrow> error + pydict list"
  runtime_env_to_dict :: "pyval \<Rightarrow> error + pyval"
  get_all_node_summary :: "error + node_summary list"
  str_num :: "rat \<Rightarrow> string"
  round3 :: "rat \<Rightarrow> rat"

text \<open>\<^verbatim>\<open>StateAPIManager._message_to_dict\<close>, lines 494 to 506.\<close>

definition message_to_dict_method ::
  "'m collaborators \<Rightarrow> 'm \<Rightarrow> string list \<Rightarrow> bool \<Rightarrow> error + pydict" where
  "message_to_dict_method M message fields_to_decode preserving_proto_field_name =
     message_to_dict M message fields_to_decode True preserving_proto_field_name"

text \<open>
  \<^verbatim>\<open>asyncio.gather\<close> without \<^verbatim>\<open>return_exceptions\<close>: the replies in the order of the
  calls, or the exception of a call that raised. When several calls raise, the program
  sees the one raised first in time; the model takes the first in the order of the
  calls, and no property below depends on which one it is.
\<close>

definition gather :: "(error + 'a) list \<Rightarrow> error + 'a list" where
  "gather calls = emap (\<lambda>c. c) calls"

section \<open>Sorting and truncation\<close>

text \<open>
  \<^verbatim>\<open>result.sort(key=lambda entry: entry[k])\<close>: the keys are computed first, so a missing
  field raises \<^verbatim>\<open>KeyError\<close> before anything is compared. The sort is stable. Strings
  compare by code point, integers and booleans as numbers; a sort of two or more
  entries has to compare, and raises \<^verbatim>\<open>TypeError\<close> when the keys are not all strings or
  all numbers. Lists, which Python orders as well, are not keys here: the identifiers
  are decoded strings and the reference count is a number.
\<close>

fun is_str :: "pyval \<Rightarrow> bool" where
  "is_str (PStr s) = True"
| "is_str v = False"

fun is_num :: "pyval \<Rightarrow> bool" where
  "is_num (PInt i) = True"
| "is_num (PBool b) = True"
| "is_num v = False"

fun the_str :: "pyval \<Rightarrow> string" where
  "the_str (PStr s) = s"
| "the_str v = []"

fun the_num :: "pyval \<Rightarrow> int" where
  "the_num (PInt i) = i"
| "the_num (PBool b) = (if b then 1 else 0)"
| "the_num v = 0"

definition list_sort :: "pyval \<Rightarrow> pyval list \<Rightarrow> error + pyval list" where
  "list_sort k result =
     ebind (emap (\<lambda>entry. getitem entry k) result) (\<lambda>keys.
       if length keys \<le> 1 then Inr result
       else if list_all is_str keys
         then Inr (map snd (sort_key (\<lambda>p. the_str (fst p)) (zip keys result)))
       else if list_all is_num keys
         then Inr (map snd (sort_key (\<lambda>p. the_num (fst p)) (zip keys result)))
       else Inl TypeError)"

text \<open>\<^verbatim>\<open>islice(result, limit)\<close>: a negative stop raises \<^verbatim>\<open>ValueError\<close>.\<close>

definition islice :: "'a list \<Rightarrow> int \<Rightarrow> error + 'a list" where
  "islice xs stop = (if stop < 0 then Inl ValueError else Inr (take (nat stop) xs))"

text \<open>The dictionary comprehension \<^verbatim>\<open>{d[k]: d for d in ...}\<close>.\<close>

fun dict_by :: "pyval \<Rightarrow> pyval list \<Rightarrow> pydict \<Rightarrow> error + pydict" where
  "dict_by k [] acc = Inr acc"
| "dict_by k (d # ds) acc =
     ebind (getitem d k) (\<lambda>key.
     ebind (setitem acc key d) (\<lambda>acc'. dict_by k ds acc'))"

text \<open>
  The tail that every keyed list operation ends with, the same statements with another
  field name each time (lines 123 to 128, 151 to 156, 175 to 180, 202 to 207, 258 to
  264 and 323 to 329): filter, sort by the identifier, truncate, key by the identifier.
\<close>

definition filter_sort_limit ::
  "string \<Rightarrow> ListApiOptions \<Rightarrow> pyval list \<Rightarrow> string list option \<Rightarrow> error + StateApiResult" where
  "filter_sort_limit k option result warns =
     ebind (filter_kv (filter_string option) (PList result)) (\<lambda>result.
     ebind (list_sort (PStr k) result) (\<lambda>result.
     ebind (islice result (limit option)) (\<lambda>sliced.
     ebind (dict_by (PStr k) sliced []) (\<lambda>d.
       Inr \<lparr>data = PDict d, warnings = warns\<rparr>))))"

section \<open>The single-source list operations\<close>

text \<open>\<^verbatim>\<open>list_actors\<close>, lines 104 to 128.\<close>

definition list_actors ::
  "'m StateDataSourceClient \<Rightarrow> 'm collaborators \<Rightarrow> ListApiOptions \<Rightarrow> error + StateApiResult" where
  "list_actors client M option =
     ebind (get_all_actor_info client (timeout option)) (\<lambda>reply.
       case reply of
         None \<Rightarrow> Inr \<lparr>data = PNone, warnings = Some [GCS_QUERY_FAILURE_WARNING]\<rparr>
       | Some actor_table_data \<Rightarrow>
           ebind (emap (\<lambda>message.
                    ebind (message_to_dict_method M message
                             [''actor_id'', ''owner_id'', ''raylet_id''] True) (\<lambda>d.
                    ebind (filter_fields M d ActorState) (\<lambda>d. Inr (PDict d))))
                  actor_table_data) (\<lambda>result.
           filter_sort_limit ''actor_id'' option result None))"

text \<open>\<^verbatim>\<open>list_placement_groups\<close>, lines 130 to 156.\<close>

definition list_placement_groups ::
  "'m StateDataSourceClient \<Rightarrow> 'm collaborators \<Rightarrow> ListApiOptions \<Rightarrow> error + StateApiResult" where
  "list_placement_groups client M option =
     ebind (get_all_placement_group_info client (timeout option)) (\<lambda>reply.
       case reply of
         None \<Rightarrow> Inr \<lparr>data = PNone, warnings = Some [GCS_QUERY_FAILURE_WARNING]\<rparr>
       | Some placement_group_table_data \<Rightarrow>
           ebind (emap (\<lambda>message.
                    ebind (message_to_dict_method M message [''placement_group_id''] True) (\<lambda>d.
                    ebind (filter_fields M d PlacementGroupState) (\<lambda>d. Inr (PDict d))))
                  placement_group_table_data) (\<lambda>result.
           filter_sort_limit ''placement_group_id'' option result None))"

text \<open>\<^verbatim>\<open>list_nodes\<close>, lines 158 to 180.\<close>

definition list_nodes ::
  "'m StateDataSourceClient \<Rightarrow> 'm collaborators \<Rightarrow> ListApiOptions \<Rightarrow> error + StateApiResult" where
  "list_nodes client M option =
     ebind (get_all_node_info client (timeout option)) (\<lambda>reply.
       case reply of
         None \<Rightarrow> Inr \<lparr>data = PNone, warnings = Some [GCS_QUERY_FAILURE_WARNING]\<rparr>
       | Some node_info_list \<Rightarrow>
           ebind (emap (\<lambda>message.
                    ebind (message_to_dict_method M message [''node_id''] True) (\<lambda>d.
                    ebind (filter_fields M d NodeState) (\<lambda>d. Inr (PDict d))))
                  node_info_list) (\<lambda>result.
           filter_sort_limit ''node_id'' option result None))"

text \<open>
  \<^verbatim>\<open>list_workers\<close>, lines 182 to 207; the worker identifier is copied from the worker
  address before the fields are filtered.
\<close>

definition list_workers ::
  "'m StateDataSourceClient \<Rightarrow> 'm collaborators \<Rightarrow> ListApiOptions \<Rightarrow> error + StateApiResult" where
  "list_workers client M option =
     ebind (get_all_worker_info client (timeout option)) (\<lambda>reply.
       case reply of
         None \<Rightarrow> Inr \<lparr>data = PNone, warnings = Some [GCS_QUERY_FAILURE_WARNING]\<rparr>
       | Some worker_table_data \<Rightarrow>
           ebind (emap (\<lambda>message.
                    ebind (message_to_dict_method M message [''worker_id'', ''raylet_id''] True) (\<lambda>d.
                    ebind (getitem (PDict d) (PStr ''worker_address'')) (\<lambda>worker_address.
                    ebind (getitem worker_address (PStr ''worker_id'')) (\<lambda>worker_id.
                    ebind (setitem d (PStr ''worker_id'') worker_id) (\<lambda>d.
                    ebind (filter_fields M d WorkerState) (\<lambda>d. Inr (PDict d)))))))
                  worker_table_data) (\<lambda>result.
           filter_sort_limit ''worker_id'' option result None))"

text \<open>
  \<^verbatim>\<open>list_jobs\<close>, lines 209 to 215. The reply of \<^verbatim>\<open>get_job_info\<close> goes to the filter as
  it is, and the filter iterates over it.
\<close>

definition list_jobs ::
  "'m StateDataSourceClient \<Rightarrow> ListApiOptions \<Rightarrow> error + StateApiResult" where
  "list_jobs client option =
     ebind (get_job_info client) (\<lambda>result.
     ebind (filter_kv (filter_string option) result) (\<lambda>result.
       if result = [] then Inr \<lparr>data = PNone, warnings = Some [GCS_QUERY_FAILURE_WARNING]\<rparr>
       else Inr \<lparr>data = PList result, warnings = None\<rparr>))"

section \<open>The fan-out list operations\<close>

text \<open>
  \<^verbatim>\<open>list_tasks\<close>, lines 217 to 264. The loop over the replies counts the falsy ones and
  appends the normalised tasks of the others.
\<close>

fun list_tasks_loop ::
  "'m collaborators \<Rightarrow> 'm list option list \<Rightarrow> nat \<Rightarrow> pyval list \<Rightarrow> error + (nat \<times> pyval list)" where
  "list_tasks_loop M [] network_failures result = Inr (network_failures, result)"
| "list_tasks_loop M (reply # replies) network_failures result =
     (case reply of
        None \<Rightarrow> list_tasks_loop M replies (network_failures + 1) result
      | Some task_info_entries \<Rightarrow>
          ebind (emap (\<lambda>task.
                   ebind (message_to_dict_method M task [''task_id''] True) (\<lambda>d.
                   ebind (filter_fields M d TaskState) (\<lambda>d. Inr (PDict d))))
                 task_info_entries) (\<lambda>ds.
          list_tasks_loop M replies network_failures (result @ ds)))"

definition list_tasks ::
  "'m StateDataSourceClient \<Rightarrow> 'm collaborators \<Rightarrow> ListApiOptions \<Rightarrow> error + StateApiResult" where
  "list_tasks client M option =
     (let raylet_ids = get_all_registered_raylet_ids client in
      ebind (gather (map (\<lambda>node_id. get_task_info client node_id (timeout option)) raylet_ids))
        (\<lambda>replies.
      ebind (list_tasks_loop M replies 0 []) (\<lambda>(network_failures, result).
        let warns =
              (if network_failures \<noteq> 0
               then Some [RAYLET_QUERY_FAILURE_WARNING (length raylet_ids) network_failures]
               else None)
        in filter_sort_limit ''task_id'' option result warns)))"

text \<open>
  \<^verbatim>\<open>list_objects\<close>, lines 266 to 329. The loop collects the worker statistics of the
  replies that are not falsy; the memory table is built from them, and every entry has
  its \<^verbatim>\<open>object_ref\<close> field renamed to \<^verbatim>\<open>object_id\<close>.
\<close>

fun list_objects_loop ::
  "'m collaborators \<Rightarrow> 'm list option list \<Rightarrow> nat \<Rightarrow> pydict list \<Rightarrow> error + (nat \<times> pydict list)" where
  "list_objects_loop M [] network_failures worker_stats = Inr (network_failures, worker_stats)"
| "list_objects_loop M (reply # replies) network_failures worker_stats =
     (case reply of
        None \<Rightarrow> list_objects_loop M replies (network_failures + 1) worker_stats
      | Some core_workers_stats \<Rightarrow>
          ebind (emap (\<lambda>core_worker_stat.
                   message_to_dict_method M core_worker_stat [''object_id''] False)
                 core_workers_stats) (\<lambda>ds.
          list_objects_loop M replies network_failures (worker_stats @ ds)))"

definition list_objects ::
  "'m StateDataSourceClient \<Rightarrow> 'm collaborators \<Rightarrow> ListApiOptions \<Rightarrow> error + StateApiResult" where
  "list_objects client M option =
     (let raylet_ids = get_all_registered_raylet_ids client in
      ebind (gather (map (\<lambda>node_id. get_object_info client node_id (timeout option)) raylet_ids))
        (\<lambda>replies.
      ebind (list_objects_loop M replies 0 []) (\<lambda>(network_failures, worker_stats).
      ebind (construct_memory_table M worker_stats) (\<lambda>table.
      ebind (emap (\<lambda>entry.
               ebind (getitem (PDict entry) (PStr ''object_ref'')) (\<lambda>object_ref.
               ebind (setitem entry (PStr ''object_id'') object_ref) (\<lambda>d.
               ebind (filter_fields M (AList.delete (PStr ''object_ref'') d) ObjectState) (\<lambda>d.
                 Inr (PDict d)))))
             table) (\<lambda>result.
        let warns =
              (if network_failures \<noteq> 0
               then Some [RAYLET_QUERY_FAILURE_WARNING (length raylet_ids) network_failures]
               else None)
        in filter_sort_limit ''object_id'' option result warns)))))"

text \<open>
  \<^verbatim>\<open>list_runtime_envs\<close>, lines 331 to 378: no identifier, the result is a list sorted by
  the reference count.
\<close>

fun list_runtime_envs_loop ::
  "'m collaborators \<Rightarrow> 'm list option list \<Rightarrow> nat \<Rightarrow> pyval list \<Rightarrow> error + (nat \<times> pyval list)" where
  "list_runtime_envs_loop M [] network_failures result = Inr (network_failures, result)"
| "list_runtime_envs_loop M (reply # replies) network_failures result =
     (case reply of
        None \<Rightarrow> list_runtime_envs_loop M replies (network_failures + 1) result
      | Some runtime_env_states \<Rightarrow>
          ebind (emap (\<lambda>state.
                   ebind (message_to_dict_method M state [] True) (\<lambda>d.
                   ebind (getitem (PDict d) (PStr ''runtime_env'')) (\<lambda>serialized.
                   ebind (runtime_env_to_dict M serialized) (\<lambda>runtime_env.
                   ebind (setitem d (PStr ''runtime_env'') runtime_env) (\<lambda>d.
                   ebind (filter_fields M d RuntimeEnvState) (\<lambda>d. Inr (PDict d)))))))
                 runtime_env_states) (\<lambda>ds.
          list_runtime_envs_loop M replies network_failures (result @ ds)))"

definition list_runtime_envs ::
  "'m StateDataSourceClient \<Rightarrow> 'm collaborators \<Rightarrow> ListApiOptions \<Rightarrow> error + StateApiResult" where
  "list_runtime_envs client M option =
     (let agent_ids = get_all_registered_agent_ids client in
      ebind (gather (map (\<lambda>node_id. get_runtime_envs_info client node_id (timeout option)) agent_ids))
        (\<lambda>replies.
      ebind (list_runtime_envs_loop M replies 0 []) (\<lambda>(network_failures, result).
        let warns =
              (if network_failures \<noteq> 0
               then Some [AGENT_QUERY_FAILURE_WARNING (length agent_ids) network_failures]
               else None)
        in ebind (filter_kv (filter_string option) (PList result)) (\<lambda>result.
           ebind (list_sort (PStr ''ref_cnt'') result) (\<lambda>result.
           ebind (islice result (limit option)) (\<lambda>sliced.
             Inr \<lparr>data = PList sliced, warnings = warns\<rparr>))))))"

section \<open>The summary\<close>

text \<open>
  \<^verbatim>\<open>a / b\<close> on numbers raises \<^verbatim>\<open>ZeroDivisionError\<close> when \<open>b\<close> is zero. Lines 416 to 421:
  the used memory defaults to zero, the available memory is a subscript.
\<close>

definition py_truediv :: "rat \<Rightarrow> rat \<Rightarrow> error + rat" where
  "py_truediv a b = (if b = 0 then Inl ZeroDivisionError else Inr (a / b))"

definition object_store_percent :: "raylet_summary \<Rightarrow> error + rat" where
  "object_store_percent r =
     (let used = (case object_store_used_memory r of None \<Rightarrow> 0 | Some u \<Rightarrow> u) in
      case object_store_available_memory r of
        None \<Rightarrow> Inl (KeyError (PStr ''object_store_available_memory''))
      | Some available \<Rightarrow> py_truediv used (used + available))"

text \<open>
  \<^verbatim>\<open>c[k1][k2]\<close> as an expression, with the container as it is afterwards.
\<close>

definition item2 :: "pyval \<Rightarrow> pyval \<Rightarrow> pyval \<Rightarrow> error + (pyval \<times> pyval)" where
  "item2 c k1 k2 =
     (case item c k1 of
        Inl e \<Rightarrow> Inl e
      | Inr (v1, c1) \<Rightarrow>
          (case item v1 k2 of
             Inl e \<Rightarrow> Inl e
           | Inr (v2, v1') \<Rightarrow>
               (case store c1 k1 v1' of Inl e \<Rightarrow> Inl e | Inr c2 \<Rightarrow> Inr (v2, c2))))"

text \<open>
  The body of the loop over the node summaries, lines 397 to 424. In Python
  \<^verbatim>\<open>1024 ^ 2\<close> is the bitwise exclusive or.
\<close>

definition node_summary_body :: "'m collaborators \<Rightarrow> node_summary \<Rightarrow> pyval \<Rightarrow> error + pyval" where
  "node_summary_body M node_summary node_to_summary =
     (let node_id = PStr (nodeId (raylet node_summary)) in
      ebind (at_key node_to_summary node_id (\<lambda>e. store e (PStr ''cpu'')
               (PStr (str_num M (cpu node_summary) @ ''%'')))) (\<lambda>nts.
      ebind (at_key nts node_id (\<lambda>e. store e (PStr ''disk_utilization'')
               (PStr (str_num M (disk_root_percent node_summary) @ ''%'')))) (\<lambda>nts.
      ebind (at_key nts node_id (\<lambda>e. store e (PStr ''disk_read'')
               (PStr (str_num M (round3 M (fst (diskIoSpeed node_summary) /
                        of_int (1024 XOR 2))) @ '' MB'')))) (\<lambda>nts.
      ebind (at_key nts node_id (\<lambda>e. store e (PStr ''disk_write'')
               (PStr (str_num M (round3 M (snd (diskIoSpeed node_summary) /
                        of_int (1024 XOR 2))) @ '' MB'')))) (\<lambda>nts.
      ebind (at_key nts node_id (\<lambda>e. store e (PStr ''network_sent_speed'')
               (PStr (str_num M (round3 M (fst (networkSpeed node_summary) / 1024)) @ '' KB'')))) (\<lambda>nts.
      ebind (at_key nts node_id (\<lambda>e. store e (PStr ''network_recv_speed'')
               (PStr (str_num M (round3 M (snd (networkSpeed node_summary) / 1024)) @ '' KB'')))) (\<lambda>nts.
      ebind (at_key nts node_id (\<lambda>e. store e (PStr ''mem_utilization'')
               (PStr (str_num M (mem2 node_summary) @ ''%'')))) (\<lambda>nts.
      ebind (object_store_percent (raylet node_summary)) (\<lambda>percent.
      at_key nts node_id (\<lambda>e. store e (PStr ''object_store_utilization'')
               (PStr (str_num M (round3 M (percent * 100)) @ ''%''))))))))))))"

text \<open>
  The two increments of one branch of the chain over the actor's state, lines 443 to
  465: the per-node counter, then the cluster-wide counter.
\<close>

definition count_actor_state :: "pyval \<Rightarrow> pyval \<Rightarrow> pyval \<Rightarrow> string \<Rightarrow> error + pyval" where
  "count_actor_state node_to_summary node_id class_name cnt =
     ebind (at_key node_to_summary node_id (\<lambda>e.
              at_key e (PStr ''actors'') (\<lambda>a.
              at_key a class_name (\<lambda>d. incr d (PStr cnt))))) (\<lambda>nts.
     at_key nts (PStr ''actors'') (\<lambda>c. at_key c class_name (\<lambda>d. incr d (PStr cnt))))"

text \<open>
  The body of the loop over the actors, lines 426 to 465, statement by statement. Line
  436 assigns a fresh \<^verbatim>\<open>defaultdict(int)\<close> to the cluster-wide entry of the class for
  every actor, outside the test of line 434.
\<close>

definition actor_body :: "pyval \<Rightarrow> pyval \<Rightarrow> error + pyval" where
  "actor_body actor node_to_summary =
     ebind (getitem actor (PStr ''address'')) (\<lambda>address.
     ebind (getitem address (PStr ''raylet_id'')) (\<lambda>node_id.
     ebind (item node_to_summary node_id) (\<lambda>(entry, nts).
     ebind (contains entry (PStr ''actors'')) (\<lambda>present.
     ebind (if \<not> present
            then at_key nts node_id (\<lambda>e. store e (PStr ''actors'') (PDefaultDict (PInt 0) []))
            else Inr nts) (\<lambda>nts.
     ebind (contains nts (PStr ''actors'')) (\<lambda>present.
     ebind (if \<not> present then store nts (PStr ''actors'') (PDict []) else Inr nts) (\<lambda>nts.
     ebind (getitem actor (PStr ''class_name'')) (\<lambda>class_name.
     ebind (item nts (PStr ''actors'')) (\<lambda>(cluster, nts).
     ebind (contains cluster class_name) (\<lambda>present.
     ebind (if \<not> present
            then at_key nts (PStr ''actors'') (\<lambda>c. store c class_name (PDict []))
            else Inr nts) (\<lambda>nts.
     ebind (at_key nts (PStr ''actors'') (\<lambda>c.
              store c class_name (PDefaultDict (PInt 0) []))) (\<lambda>nts.
     ebind (at_key nts node_id (\<lambda>e. at_key e (PStr ''actors'') (\<lambda>a. incr a (PStr ''cnt'')))) (\<lambda>nts.
     ebind (at_key nts (PStr ''actors'') (\<lambda>c.
              at_key c class_name (\<lambda>d. incr d (PStr ''cnt'')))) (\<lambda>nts.
     ebind (item2 nts node_id (PStr ''actors'')) (\<lambda>(node_actors, nts).
     ebind (contains node_actors class_name) (\<lambda>present.
     ebind (if \<not> present
            then at_key nts node_id (\<lambda>e. at_key e (PStr ''actors'') (\<lambda>a.
                   store a class_name (PDefaultDict (PInt 0) [])))
            else Inr nts) (\<lambda>nts.
     ebind (getitem actor (PStr ''state'')) (\<lambda>state.
       if state = PStr ''DEPENDENCIES_UNREADY''
         then count_actor_state nts node_id class_name ''dep_unready_cnt''
       else if state = PStr ''PENDING_CREATION''
         then count_actor_state nts node_id class_name ''pending_cnt''
       else if state = PStr ''ALIVE''
         then count_actor_state nts node_id class_name ''alive_cnt''
       else if state = PStr ''RESTARTING''
         then count_actor_state nts node_id class_name ''restarting_cnt''
       else if state = PStr ''DEAD''
         then count_actor_state nts node_id class_name ''dead_cnt''
       else Inr nts))))))))))))))))))"

text \<open>The body of the loop over the tasks, lines 467 to 481.\<close>

definition task_body :: "pyval \<Rightarrow> pyval \<Rightarrow> error + pyval" where
  "task_body task node_to_summary =
     ebind (getitem task (PStr ''type'')) (\<lambda>ty.
       if ty = PStr ''ACTOR_CREATION_TASK'' then Inr node_to_summary
       else
     ebind (contains node_to_summary (PStr ''tasks'')) (\<lambda>present.
     ebind (if \<not> present then store node_to_summary (PStr ''tasks'') (PDict [])
            else Inr node_to_summary) (\<lambda>nts.
     ebind (getitem task (PStr ''name'')) (\<lambda>name.
     ebind (item nts (PStr ''tasks'')) (\<lambda>(tasks, nts).
     ebind (contains tasks name) (\<lambda>present.
     ebind (if \<not> present
            then at_key nts (PStr ''tasks'') (\<lambda>t. store t name (PDefaultDict (PInt 0) []))
            else Inr nts) (\<lambda>nts.
     ebind (at_key nts (PStr ''tasks'') (\<lambda>t. at_key t name (\<lambda>d. incr d (PStr ''cnt'')))) (\<lambda>nts.
     ebind (getitem task (PStr ''scheduling_state'')) (\<lambda>scheduling_state.
       if scheduling_state = PStr ''WAITING_FOR_DEPENDENCIES''
         then at_key nts (PStr ''tasks'') (\<lambda>t.
                at_key t name (\<lambda>d. incr d (PStr ''wait_for_dep_cnt'')))
       else if scheduling_state = PStr ''SCHEDULED''
         then at_key nts (PStr ''tasks'') (\<lambda>t.
                at_key t name (\<lambda>d. incr d (PStr ''scheduled_cnt'')))
       else if scheduling_state = PStr ''FINISHED''
         then at_key nts (PStr ''tasks'') (\<lambda>t.
                at_key t name (\<lambda>d. incr d (PStr ''finished_cnt'')))
       else Inr nts)))))))))"

text \<open>The body of the loop over the workers, lines 483 to 489.\<close>

definition worker_body :: "pyval \<Rightarrow> pyval \<Rightarrow> error + pyval" where
  "worker_body worker node_to_summary =
     ebind (getitem worker (PStr ''worker_address'')) (\<lambda>worker_address.
     ebind (getitem worker_address (PStr ''raylet_id'')) (\<lambda>node_id.
     ebind (getitem worker (PStr ''is_alive'')) (\<lambda>is_alive.
       if truthy is_alive
       then
         ebind (item node_to_summary node_id) (\<lambda>(entry, nts).
         ebind (contains entry (PStr ''num_workers'')) (\<lambda>present.
         ebind (if \<not> present
                then at_key nts node_id (\<lambda>e. store e (PStr ''num_workers'') (PInt 0))
                else Inr nts) (\<lambda>nts.
         at_key nts node_id (\<lambda>e. incr e (PStr ''num_workers'')))))
       else Inr node_to_summary)))"

text \<open>
  \<^verbatim>\<open>summary\<close>, lines 380 to 492: the three list operations with the fixed options, the
  resource summary, and the four loops over one \<^verbatim>\<open>defaultdict(dict)\<close>.
\<close>

definition summary :: "'m StateDataSourceClient \<Rightarrow> 'm collaborators \<Rightarrow> error + pyval" where
  "summary client M =
     (let op = \<lparr>limit = 1000, timeout = 30, filter_string = ''''\<rparr> in
      ebind (gather [list_actors client M op, list_tasks client M op, list_workers client M op])
        (\<lambda>results.
      case results of
        [actors, tasks, workers] \<Rightarrow>
          ebind (get_all_node_summary M) (\<lambda>all_node_summary.
          ebind (efold (node_summary_body M) all_node_summary (PDefaultDict (PDict []) [])) (\<lambda>nts.
          ebind (py_values (data actors)) (\<lambda>actor_list.
          ebind (efold actor_body actor_list nts) (\<lambda>nts.
          ebind (py_values (data tasks)) (\<lambda>task_list.
          ebind (efold task_body task_list nts) (\<lambda>nts.
          ebind (py_values (data workers)) (\<lambda>worker_list.
          efold worker_body worker_list nts)))))))
      | _ \<Rightarrow> Inl ValueError))"

section \<open>Collaborators for the concrete examples\<close>

text \<open>
  The examples below run the operations on concrete inputs. Their messages are
  dictionaries already, so the conversion and the field filter return them unchanged,
  and the memory table is the list of worker statistics itself. The client answers every
  single-source call with an empty list and has no peers; each example overrides what
  it needs.
\<close>

definition example_collaborators :: "pydict collaborators" where
  "example_collaborators =
     \<lparr>message_to_dict = (\<lambda>message fields_to_decode including preserving. Inr message),
      filter_fields = (\<lambda>d schema. Inr d),
      construct_memory_table = (\<lambda>worker_stats. Inr worker_stats),
      runtime_env_to_dict = (\<lambda>v. Inr v),
      get_all_node_summary = Inr [],
      str_num = (\<lambda>x. ''x''),
      round3 = (\<lambda>x. x)\<rparr>"

definition example_client :: "pydict StateDataSourceClient" where
  "example_client =
     \<lparr>get_all_actor_info = (\<lambda>t. Inr (Some [])),
      get_all_placement_group_info = (\<lambda>t. Inr (Some [])),
      get_all_node_info = (\<lambda>t. Inr (Some [])),
      get_all_worker_info = (\<lambda>t. Inr (Some [])),
      get_job_info = Inr (PDict []),
      get_all_registered_raylet_ids = [],
      get_all_registered_agent_ids = [],
      get_task_info = (\<lambda>node_id t. Inr None),
      get_object_info = (\<lambda>node_id t. Inr None),
      get_runtime_envs_info = (\<lambda>node_id t. Inr None)\<rparr>"

definition silent_client :: "pydict StateDataSourceClient" where
  "silent_client = example_client
     \<lparr>get_all_actor_info := (\<lambda>t. Inr None),
      get_all_placement_group_info := (\<lambda>t. Inr None),
      get_all_node_info := (\<lambda>t. Inr None),
      get_all_worker_info := (\<lambda>t. Inr None)\<rparr>"

definition raising_client :: "pydict StateDataSourceClient" where
  "raising_client = example_client
     \<lparr>get_all_registered_raylet_ids := [''n1'', ''n2''],
      get_all_registered_agent_ids := [''n1'', ''n2''],
      get_task_info := (\<lambda>node_id t.
        if node_id = ''n1'' then Inl (Raised ''boom'')
        else Inr (Some [[(PStr ''task_id'', PStr ''A'')]])),
      get_object_info := (\<lambda>node_id t.
        if node_id = ''n1'' then Inl (Raised ''boom'')
        else Inr (Some [[(PStr ''object_ref'', PStr ''o1'')]])),
      get_runtime_envs_info := (\<lambda>node_id t.
        if node_id = ''n1'' then Inl (Raised ''boom'')
        else Inr (Some [[(PStr ''runtime_env'', PStr ''{}''), (PStr ''ref_cnt'', PInt 1)]]))\<rparr>"

definition foo_actor :: "string \<Rightarrow> string \<Rightarrow> pydict" where
  "foo_actor actor_id state =
     [(PStr ''actor_id'', PStr actor_id),
      (PStr ''address'', PDict [(PStr ''raylet_id'', PStr ''n1'')]),
      (PStr ''class_name'', PStr ''Foo''),
      (PStr ''state'', PStr state)]"

text \<open>
  The shape of \<^verbatim>\<open>node_to_summary\<close> during the loop over the node summaries: a
  \<^verbatim>\<open>defaultdict(dict)\<close> whose values are plain dictionaries. It states the lemmas about
  that loop.
\<close>

fun is_plain_dict :: "pyval \<Rightarrow> bool" where
  "is_plain_dict (PDict kvs) = True"
| "is_plain_dict v = False"

definition node_table :: "pyval \<Rightarrow> bool" where
  "node_table nts =
     (case nts of
        PDefaultDict dflt kvs \<Rightarrow> dflt = PDict [] \<and> list_all (\<lambda>kv. is_plain_dict (snd kv)) kvs
      | _ \<Rightarrow> False)"

text \<open>Two node summaries, the second with no used memory and zero available memory.\<close>

definition zero_store_nodes :: "node_summary list" where
  "zero_store_nodes =
     [\<lparr>raylet = \<lparr>nodeId = ''n1'', object_store_used_memory = Some 1,
                 object_store_available_memory = Some 3\<rparr>,
       cpu = 5, disk_root_percent = 6, diskIoSpeed = (1, 2), networkSpeed = (3, 4), mem2 = 7\<rparr>,
      \<lparr>raylet = \<lparr>nodeId = ''n2'', object_store_used_memory = None,
                 object_store_available_memory = Some 0\<rparr>,
       cpu = 5, disk_root_percent = 6, diskIoSpeed = (1, 2), networkSpeed = (3, 4), mem2 = 7\<rparr>]"

text \<open>
  Two functions that state the properties of the list operations: the identifier of a
  record (\<open>PNone\<close> when the field is missing), and the messages of a reply.
\<close>

definition key_of :: "string \<Rightarrow> pyval \<Rightarrow> pyval" where
  "key_of k d = (case getitem d (PStr k) of Inl e \<Rightarrow> PNone | Inr v \<Rightarrow> v)"

fun messages_of :: "'m list option \<Rightarrow> 'm list" where
  "messages_of None = []"
| "messages_of (Some ms) = ms"

text \<open>
  Three peers of which the second does not reply, as in the example of the
  specification.
\<close>

definition partial_client :: "pydict StateDataSourceClient" where
  "partial_client = example_client
     \<lparr>get_all_registered_raylet_ids := [''n1'', ''n2'', ''n3''],
      get_all_registered_agent_ids := [''n1'', ''n2'', ''n3''],
      get_task_info := (\<lambda>node_id t.
        if node_id = ''n1''
          then Inr (Some [[(PStr ''task_id'', PStr ''B''), (PStr ''scheduling_state'', PStr ''SCHEDULED'')]])
        else if node_id = ''n3''
          then Inr (Some [[(PStr ''task_id'', PStr ''A''), (PStr ''scheduling_state'', PStr ''FINISHED'')]])
        else Inr None),
      get_object_info := (\<lambda>node_id t.
        if node_id = ''n1'' then Inr (Some [[(PStr ''object_ref'', PStr ''o1'')]])
        else if node_id = ''n3'' then Inr (Some [[(PStr ''object_ref'', PStr ''o0'')]])
        else Inr None),
      get_runtime_envs_info := (\<lambda>node_id t.
        if node_id = ''n1'' then Inr (Some [[(PStr ''runtime_env'', PStr ''{}''), (PStr ''ref_cnt'', PInt 2)]])
        else if node_id = ''n3'' then Inr (Some [[(PStr ''runtime_env'', PStr ''{}''), (PStr ''ref_cnt'', PInt 1)]])
        else Inr None)\<rparr>"



section \<open>Properties of the filter engine\<close>

lemma py_split_not_Nil: "py_split sep s \<noteq> []"
  by (induction s) (auto split: list.splits)

lemma py_split_no_sep: "sep \<notin> set s \<Longrightarrow> py_split sep s = [s]"
  by (induction s) auto

lemma py_split_append_sep:
  "sep \<notin> set x \<Longrightarrow> py_split sep (x @ sep # rest) = x # py_split sep rest"
  by (induction x) (auto split: list.splits)

lemma py_split_join:
  "xs \<noteq> [] \<Longrightarrow> \<forall>x\<in>set xs. sep \<notin> set x \<Longrightarrow> py_split sep (join_with sep xs) = xs"
  by (induction sep xs rule: join_with.induct) (auto simp: py_split_no_sep py_split_append_sep)

lemma length_py_split: "length (py_split sep s) = Suc (count_list s sep)"
  by (induction s) (auto split: list.splits simp: py_split_not_Nil)

lemma kv_filters_loop_append:
  "kv_filters_loop (xs @ ys) acc = kv_filters_loop ys (kv_filters_loop xs acc)"
  by (induction xs arbitrary: acc) (auto simp: Let_def)

lemma kv_filters_loop_malformed:
  "count_list c CHR ''='' \<noteq> 1 \<Longrightarrow> kv_filters_loop [c] acc = acc"
  by (simp add: Let_def length_py_split)

lemma split_clause:
  "CHR ''='' \<notin> set k \<Longrightarrow> CHR ''='' \<notin> set v \<Longrightarrow> py_split CHR ''='' (clause (k, v)) = [k, v]"
  by (simp add: clause_def py_split_append_sep py_split_no_sep)

lemma distinct_kv_filters_loop:
  "distinct (map fst acc) \<Longrightarrow> distinct (map fst (kv_filters_loop kvs acc))"
  by (induction kvs arbitrary: acc) (auto simp: Let_def distinct_update)

lemma map_of_kv_filters_loop:
  "\<forall>(k, v)\<in>set cs. CHR ''='' \<notin> set k \<and> CHR ''='' \<notin> set v \<Longrightarrow>
   map_of (kv_filters_loop (map clause cs) acc) = map_of acc ++ map_of (rev cs)"
proof (induction cs arbitrary: acc)
  case Nil
  then show ?case by simp
next
  case (Cons c cs)
  obtain k v where c: "c = (k, v)" by (cases c)
  from Cons.prems c have sp: "py_split CHR ''='' (clause (k, v)) = [k, v]"
    by (simp add: split_clause)
  from Cons.prems have rest: "\<forall>(k, v)\<in>set cs. CHR ''='' \<notin> set k \<and> CHR ''='' \<notin> set v"
    by simp
  show ?case
    using Cons.IH [OF rest] c sp
    by (simp add: update_conv' map_add_upd_left Let_def) (simp add: map_add_def fun_eq_iff split: option.splits)
qed

lemma match_loop_dict:
  "match_loop (PDict d) kvf m =
     Inr (m \<and> (\<forall>(c, v)\<in>set kvf. v \<noteq> [] \<and> map_of d (PStr c) = Some (PStr v)))"
  by (induction kvf arbitrary: m) (auto split: option.splits)

lemma matched_loop_dicts:
  "matched_loop kvf (map PDict ds) acc =
     Inr (acc @ map PDict [d \<leftarrow> ds. \<forall>(c, v)\<in>set kvf. v \<noteq> [] \<and> map_of d (PStr c) = Some (PStr v)])"
  by (induction ds arbitrary: acc) (simp_all add: match_loop_dict)

lemma split_mk_filter:
  assumes "\<forall>(k, v)\<in>set cs. wf_token k \<and> wf_token v"
  shows "kv_filters_loop (py_split CHR '','' (mk_filter cs)) [] = kv_filters_loop (map clause cs) []"
proof (cases cs)
  case Nil
  then show ?thesis by (simp add: mk_filter_def Let_def)
next
  case (Cons c cs')
  have "\<forall>x\<in>set (map clause cs). CHR '','' \<notin> set x"
    using assms by (auto simp: clause_def wf_token_def)
  then have "py_split CHR '','' (join_with CHR '','' (map clause cs)) = map clause cs"
    using Cons by (intro py_split_join) simp_all
  then show ?thesis by (simp add: mk_filter_def)
qed

text \<open>
  Claim C4, as amended. For a filter string made of well-formed clauses and a list of
  records, the output is exactly the records that, for every field named in the filter,
  carry that field with the string value of the \<^emph>\<open>last\<close> clause for the field
  (\<open>map_of (rev cs)\<close>); a record that lacks such a field is excluded, and the empty
  filter keeps every record. When no field is named twice this is every clause.
\<close>

theorem filter_kv_well_formed:
  assumes "\<forall>(k, v)\<in>set cs. wf_token k \<and> wf_token v"
  shows "filter_kv (mk_filter cs) (PList (map PDict ds)) =
         Inr (map PDict [d \<leftarrow> ds.
                \<forall>k v. map_of (rev cs) k = Some v \<longrightarrow> map_of d (PStr k) = Some (PStr v)])"
proof -
  let ?kvf = "kv_filters_loop (map clause cs) []"
  have eq: "\<forall>(k, v)\<in>set cs. CHR ''='' \<notin> set k \<and> CHR ''='' \<notin> set v"
    using assms by (auto simp: wf_token_def)
  have m: "map_of ?kvf = map_of (rev cs)"
    using map_of_kv_filters_loop [OF eq, of "[]"] by simp
  have d: "distinct (map fst ?kvf)"
    by (rule distinct_kv_filters_loop) simp
  have mem: "(k, v) \<in> set ?kvf \<longleftrightarrow> map_of (rev cs) k = Some v" for k v
    using d m by (metis map_of_eq_Some_iff)
  have ne: "map_of (rev cs) k = Some v \<Longrightarrow> v \<noteq> []" for k v
  proof -
    assume "map_of (rev cs) k = Some v"
    then have "(k, v) \<in> set cs" by (auto dest: map_of_SomeD)
    with assms show "v \<noteq> []" by (auto simp: wf_token_def)
  qed
  have p: "(\<forall>(c, v)\<in>set ?kvf. v \<noteq> [] \<and> map_of d (PStr c) = Some (PStr v)) \<longleftrightarrow>
           (\<forall>k v. map_of (rev cs) k = Some v \<longrightarrow> map_of d (PStr k) = Some (PStr v))" for d
  proof
    assume l: "\<forall>(c, v)\<in>set ?kvf. v \<noteq> [] \<and> map_of d (PStr c) = Some (PStr v)"
    show "\<forall>k v. map_of (rev cs) k = Some v \<longrightarrow> map_of d (PStr k) = Some (PStr v)"
    proof (intro allI impI)
      fix k v assume "map_of (rev cs) k = Some v"
      then have "(k, v) \<in> set ?kvf" by (simp add: mem)
      with l show "map_of d (PStr k) = Some (PStr v)" by blast
    qed
  next
    assume r: "\<forall>k v. map_of (rev cs) k = Some v \<longrightarrow> map_of d (PStr k) = Some (PStr v)"
    show "\<forall>(c, v)\<in>set ?kvf. v \<noteq> [] \<and> map_of d (PStr c) = Some (PStr v)"
    proof (clarify)
      fix c v assume "(c, v) \<in> set ?kvf"
      then have "map_of (rev cs) c = Some v" by (simp add: mem)
      with r ne show "v \<noteq> [] \<and> map_of d (PStr c) = Some (PStr v)" by blast
    qed
  qed
  show ?thesis
    unfolding filter_kv_def Let_def split_mk_filter [OF assms]
    by (simp add: ebind_def matched_loop_dicts p)
qed

text \<open>The example of the specification: two clauses over two actors.\<close>

theorem filter_kv_well_formed_witness:
  "filter_kv ''state=ALIVE,class_name=Foo''
     (PList [PDict [(PStr ''id'', PStr ''1''), (PStr ''state'', PStr ''ALIVE''), (PStr ''class_name'', PStr ''Foo'')],
             PDict [(PStr ''id'', PStr ''2''), (PStr ''state'', PStr ''ALIVE''), (PStr ''class_name'', PStr ''Bar'')]])
   = Inr [PDict [(PStr ''id'', PStr ''1''), (PStr ''state'', PStr ''ALIVE''), (PStr ''class_name'', PStr ''Foo'')]]"
  using filter_kv_well_formed [of "[(''state'', ''ALIVE''), (''class_name'', ''Foo'')]"
     "[[(PStr ''id'', PStr ''1''), (PStr ''state'', PStr ''ALIVE''), (PStr ''class_name'', PStr ''Foo'')],
       [(PStr ''id'', PStr ''2''), (PStr ''state'', PStr ''ALIVE''), (PStr ''class_name'', PStr ''Bar'')]]"]
  by (simp add: mk_filter_def clause_def wf_token_def)

text \<open>
  Claim C4 as stated fails when a field is named twice: under \<open>a=1,a=2\<close> a record with
  \<open>a = 2\<close> is kept although it does not match the clause \<open>a=1\<close>.
\<close>

theorem filter_kv_every_clause_counterexample:
  "filter_kv (mk_filter [(''a'', ''1''), (''a'', ''2'')]) (PList (map PDict [[(PStr ''a'', PStr ''2'')]]))
     = Inr [PDict [(PStr ''a'', PStr ''2'')]]
   \<and> map_of [(PStr ''a'', PStr ''2'')] (PStr ''a'') \<noteq> Some (PStr ''1'')"
  by (simp add: mk_filter_def clause_def filter_kv_def ebind_def)

text \<open>
  Claim C5, as amended. A clause is applied exactly when it contains one \<open>=\<close>, whatever
  its tokens; a clause with no \<open>=\<close> or with several is dropped without error, so a
  filter string with such a clause added anywhere gives the same output as the filter
  string without it.
\<close>

theorem malformed_clause_no_effect:
  assumes "CHR '','' \<notin> set c" and "count_list c CHR ''='' \<noteq> 1"
    and "\<forall>x\<in>set (pre @ post). CHR '','' \<notin> set x"
  shows "filter_kv (join_with CHR '','' (pre @ [c] @ post)) records =
         filter_kv (join_with CHR '','' (pre @ post)) records"
proof -
  have a: "py_split CHR '','' (join_with CHR '','' (pre @ [c] @ post)) = pre @ [c] @ post"
    using assms by (intro py_split_join) auto
  have k1: "kv_filters_loop (pre @ [c] @ post) [] = kv_filters_loop (pre @ post) []"
  proof -
    have "kv_filters_loop (pre @ [c] @ post) [] =
          kv_filters_loop post (kv_filters_loop [c] (kv_filters_loop pre []))"
      by (simp only: kv_filters_loop_append)
    also have "\<dots> = kv_filters_loop post (kv_filters_loop pre [])"
      by (simp only: kv_filters_loop_malformed [OF assms(2)])
    also have "\<dots> = kv_filters_loop (pre @ post) []"
      by (simp only: kv_filters_loop_append)
    finally show ?thesis .
  qed
  have k2: "kv_filters_loop (py_split CHR '','' (join_with CHR '','' (pre @ post))) [] =
            kv_filters_loop (pre @ post) []"
  proof (cases "pre @ post = []")
    case True
    then show ?thesis by (simp add: Let_def)
  next
    case False
    then have "py_split CHR '','' (join_with CHR '','' (pre @ post)) = pre @ post"
      using assms(3) by (intro py_split_join) auto
    then show ?thesis by simp
  qed
  show ?thesis
    unfolding filter_kv_def Let_def a k1 k2 ..
qed

text \<open>The malformed clauses \<open>a=b=c\<close> and \<open>novalue\<close> of the specification.\<close>

theorem malformed_clause_no_effect_witness:
  "filter_kv ''a=x,a=b=c,novalue'' (PList [PDict [(PStr ''a'', PStr ''x'')], PDict [(PStr ''a'', PStr ''y'')]])
   = filter_kv ''a=x,novalue'' (PList [PDict [(PStr ''a'', PStr ''x'')], PDict [(PStr ''a'', PStr ''y'')]])"
  using malformed_clause_no_effect [of "''a=b=c''" "[''a=x'']" "[''novalue'']"]
  by simp

text \<open>
  Claim C5 as stated fails for a clause with an empty value token: \<open>a=\<close> is applied and
  excludes a record that the empty filter keeps.
\<close>

theorem empty_token_clause_counterexample:
  "filter_kv ''a='' (PList [PDict [(PStr ''a'', PStr ''x'')]]) = Inr []
   \<and> filter_kv '''' (PList [PDict [(PStr ''a'', PStr ''x'')]]) = Inr [PDict [(PStr ''a'', PStr ''x'')]]"
  by (simp add: filter_kv_def ebind_def)

section \<open>Properties of the list operations\<close>

lemma ebind_simps [simp]: "ebind (Inl e) f = Inl e" "ebind (Inr x) f = f x"
  by (simp_all add: ebind_def)

text \<open>
  Claim C7, as amended. When the coordination service call of a single-source list
  operation (actors, placement groups, nodes, workers) returns a falsy reply, the
  operation returns, without raising, a result whose warnings are the one static
  message and whose data is \<^verbatim>\<open>None\<close>, the default of the field: not an empty mapping.
\<close>

theorem gcs_no_reply:
  "(get_all_actor_info client (timeout option) = Inr None \<longrightarrow>
      list_actors client M option = Inr \<lparr>data = PNone, warnings = Some [GCS_QUERY_FAILURE_WARNING]\<rparr>) \<and>
   (get_all_placement_group_info client (timeout option) = Inr None \<longrightarrow>
      list_placement_groups client M option = Inr \<lparr>data = PNone, warnings = Some [GCS_QUERY_FAILURE_WARNING]\<rparr>) \<and>
   (get_all_node_info client (timeout option) = Inr None \<longrightarrow>
      list_nodes client M option = Inr \<lparr>data = PNone, warnings = Some [GCS_QUERY_FAILURE_WARNING]\<rparr>) \<and>
   (get_all_worker_info client (timeout option) = Inr None \<longrightarrow>
      list_workers client M option = Inr \<lparr>data = PNone, warnings = Some [GCS_QUERY_FAILURE_WARNING]\<rparr>)"
  by (simp add: list_actors_def list_placement_groups_def list_nodes_def list_workers_def)

text \<open>A coordination service that answers none of the four calls.\<close>

theorem gcs_no_reply_witness:
  "list_actors silent_client example_collaborators \<lparr>limit = 10, timeout = 30, filter_string = ''''\<rparr>
     = Inr \<lparr>data = PNone, warnings = Some [GCS_QUERY_FAILURE_WARNING]\<rparr> \<and>
   list_placement_groups silent_client example_collaborators \<lparr>limit = 10, timeout = 30, filter_string = ''''\<rparr>
     = Inr \<lparr>data = PNone, warnings = Some [GCS_QUERY_FAILURE_WARNING]\<rparr> \<and>
   list_nodes silent_client example_collaborators \<lparr>limit = 10, timeout = 30, filter_string = ''''\<rparr>
     = Inr \<lparr>data = PNone, warnings = Some [GCS_QUERY_FAILURE_WARNING]\<rparr> \<and>
   list_workers silent_client example_collaborators \<lparr>limit = 10, timeout = 30, filter_string = ''''\<rparr>
     = Inr \<lparr>data = PNone, warnings = Some [GCS_QUERY_FAILURE_WARNING]\<rparr>"
  using gcs_no_reply [of silent_client "\<lparr>limit = 10, timeout = 30, filter_string = ''''\<rparr>" example_collaborators]
  by (simp add: silent_client_def example_client_def)

text \<open>
  Claim C7 as stated fails: the data of the result is \<^verbatim>\<open>None\<close>, which is not the empty
  mapping.
\<close>

theorem gcs_no_reply_data_counterexample:
  "list_actors silent_client example_collaborators \<lparr>limit = 10, timeout = 30, filter_string = ''''\<rparr>
     = Inr \<lparr>data = PNone, warnings = Some [GCS_QUERY_FAILURE_WARNING]\<rparr> \<and> PNone \<noteq> PDict []"
  by (simp add: silent_client_def example_client_def list_actors_def)

lemma gather_raises:
  "Inl e \<in> set calls \<Longrightarrow> \<exists>e'. gather calls = Inl e' \<and> Inl e' \<in> set calls"
  unfolding gather_def
  by (induction calls) (auto split: sum.splits)

lemma gather_no_raise:
  "\<forall>c\<in>set calls. \<not> isl c \<Longrightarrow> gather calls = Inr (map projr calls)"
  unfolding gather_def
  by (induction calls) (auto split: sum.splits)

text \<open>
  Claim C3, as amended. In every fan-out list operation (tasks, objects, runtime
  environments) a sub-request that raises is not caught: the operation raises the
  exception of a raising peer and returns no result, so no warning is produced and the
  data of the other peers is lost. Only falsy replies are counted as failures.
\<close>

theorem fanout_exception_propagates:
  "(get_task_info client n (timeout option) = Inl e \<and> n \<in> set (get_all_registered_raylet_ids client) \<longrightarrow>
      (\<exists>e'. list_tasks client M option = Inl e' \<and>
            (\<exists>n'\<in>set (get_all_registered_raylet_ids client).
               get_task_info client n' (timeout option) = Inl e'))) \<and>
   (get_object_info client n (timeout option) = Inl e \<and> n \<in> set (get_all_registered_raylet_ids client) \<longrightarrow>
      (\<exists>e'. list_objects client M option = Inl e' \<and>
            (\<exists>n'\<in>set (get_all_registered_raylet_ids client).
               get_object_info client n' (timeout option) = Inl e'))) \<and>
   (get_runtime_envs_info client n (timeout option) = Inl e \<and> n \<in> set (get_all_registered_agent_ids client) \<longrightarrow>
      (\<exists>e'. list_runtime_envs client M option = Inl e' \<and>
            (\<exists>n'\<in>set (get_all_registered_agent_ids client).
               get_runtime_envs_info client n' (timeout option) = Inl e')))"
proof (intro conjI impI)
  assume a: "get_task_info client n (timeout option) = Inl e \<and> n \<in> set (get_all_registered_raylet_ids client)"
  let ?calls = "map (\<lambda>node_id. get_task_info client node_id (timeout option)) (get_all_registered_raylet_ids client)"
  from a have "Inl e \<in> set ?calls" by force
  then obtain e' where "gather ?calls = Inl e'" "Inl e' \<in> set ?calls"
    using gather_raises by blast
  then show "\<exists>e'. list_tasks client M option = Inl e' \<and>
            (\<exists>n'\<in>set (get_all_registered_raylet_ids client).
               get_task_info client n' (timeout option) = Inl e')"
    by (auto simp: list_tasks_def Let_def)
next
  assume a: "get_object_info client n (timeout option) = Inl e \<and> n \<in> set (get_all_registered_raylet_ids client)"
  let ?calls = "map (\<lambda>node_id. get_object_info client node_id (timeout option)) (get_all_registered_raylet_ids client)"
  from a have "Inl e \<in> set ?calls" by force
  then obtain e' where "gather ?calls = Inl e'" "Inl e' \<in> set ?calls"
    using gather_raises by blast
  then show "\<exists>e'. list_objects client M option = Inl e' \<and>
            (\<exists>n'\<in>set (get_all_registered_raylet_ids client).
               get_object_info client n' (timeout option) = Inl e')"
    by (auto simp: list_objects_def Let_def)
next
  assume a: "get_runtime_envs_info client n (timeout option) = Inl e \<and> n \<in> set (get_all_registered_agent_ids client)"
  let ?calls = "map (\<lambda>node_id. get_runtime_envs_info client node_id (timeout option)) (get_all_registered_agent_ids client)"
  from a have "Inl e \<in> set ?calls" by force
  then obtain e' where "gather ?calls = Inl e'" "Inl e' \<in> set ?calls"
    using gather_raises by blast
  then show "\<exists>e'. list_runtime_envs client M option = Inl e' \<and>
            (\<exists>n'\<in>set (get_all_registered_agent_ids client).
               get_runtime_envs_info client n' (timeout option) = Inl e')"
    by (auto simp: list_runtime_envs_def Let_def)
qed

text \<open>Two peers of which the first raises on each of the three per-peer calls.\<close>

theorem fanout_exception_propagates_witness:
  "list_tasks raising_client example_collaborators \<lparr>limit = 10, timeout = 30, filter_string = ''''\<rparr>
     = Inl (Raised ''boom'') \<and>
   list_objects raising_client example_collaborators \<lparr>limit = 10, timeout = 30, filter_string = ''''\<rparr>
     = Inl (Raised ''boom'') \<and>
   list_runtime_envs raising_client example_collaborators \<lparr>limit = 10, timeout = 30, filter_string = ''''\<rparr>
     = Inl (Raised ''boom'')"
  using fanout_exception_propagates [of raising_client "''n1''"
      "\<lparr>limit = 10, timeout = 30, filter_string = ''''\<rparr>" "Raised ''boom''" example_collaborators]
  by (auto simp: raising_client_def example_client_def split: if_splits)

text \<open>
  Claim C3 as stated fails: with three peers of which the second raises, the task list
  operation raises that exception instead of returning the tasks of the other two with
  a warning.
\<close>

theorem fanout_exception_counterexample:
  "list_tasks
     (example_client
        \<lparr>get_all_registered_raylet_ids := [''n1'', ''n2'', ''n3''],
         get_task_info := (\<lambda>node_id t.
           if node_id = ''n2'' then Inl (Raised ''connection reset'')
           else Inr (Some [[(PStr ''task_id'', PStr node_id)]]))\<rparr>)
     example_collaborators \<lparr>limit = 10, timeout = 30, filter_string = ''''\<rparr>
   = Inl (Raised ''connection reset'')"
  by (simp add: example_client_def list_tasks_def gather_def)

text \<open>
  Claim C9 at a concrete reply of the coordination service: one job, empty filter. The
  filter iterates over the dictionary, that is over its keys, so the data of the result
  is the list of the job identifiers and the job record is gone.
\<close>

theorem list_jobs_returns_identifiers:
  "list_jobs (example_client\<lparr>get_job_info := Inr (PDict [(PStr ''01000000'', PObj ''JobInfo'')])\<rparr>)
     \<lparr>limit = 10, timeout = 30, filter_string = ''''\<rparr>
   = Inr \<lparr>data = PList [PStr ''01000000''], warnings = None\<rparr>"
  by (simp add: example_client_def list_jobs_def filter_kv_def)

section \<open>Properties of the summary\<close>

text \<open>
  Claim C1 at the example of the specification: three actors of class \<open>Foo\<close> on one
  node, in the states \<open>ALIVE\<close>, \<open>DEAD\<close>, \<open>ALIVE\<close>. The per-node breakdown counts them
  (\<open>alive_cnt = 2\<close>, \<open>dead_cnt = 1\<close>); the cluster-wide breakdown holds the last actor
  only (\<open>cnt = 1\<close>, \<open>alive_cnt = 1\<close>, no \<open>dead_cnt\<close>).
\<close>

theorem summary_cluster_breakdown_reset:
  "summary
     (example_client\<lparr>get_all_actor_info := (\<lambda>t. Inr (Some
         [foo_actor ''a1'' ''ALIVE'', foo_actor ''a2'' ''DEAD'', foo_actor ''a3'' ''ALIVE'']))\<rparr>)
     example_collaborators
   = Inr (PDefaultDict (PDict [])
       [(PStr ''n1'',
         PDict [(PStr ''actors'',
                 PDefaultDict (PInt 0)
                  [(PStr ''cnt'', PInt 3),
                   (PStr ''Foo'', PDefaultDict (PInt 0)
                      [(PStr ''alive_cnt'', PInt 2), (PStr ''dead_cnt'', PInt 1)])])]),
        (PStr ''actors'',
         PDict [(PStr ''Foo'', PDefaultDict (PInt 0)
                   [(PStr ''cnt'', PInt 1), (PStr ''alive_cnt'', PInt 1)])])])"
  by code_simp

lemma list_all_update:
  "list_all P al \<Longrightarrow> P (k, v) \<Longrightarrow> list_all P (AList.update k v al)"
  by (induction al) auto

lemma map_of_list_all:
  "list_all P al \<Longrightarrow> map_of al k = Some v \<Longrightarrow> P (k, v)"
  by (induction al) (auto split: if_splits)

lemma node_table_store:
  assumes "node_table nts"
  shows "\<exists>nts'. at_key nts (PStr i) (\<lambda>e. store e (PStr k) v) = Inr nts' \<and> node_table nts'"
proof -
  from assms obtain kvs where nts: "nts = PDefaultDict (PDict []) kvs"
    and all: "list_all (\<lambda>kv. is_plain_dict (snd kv)) kvs"
    by (auto simp: node_table_def split: pyval.splits)
  show ?thesis
  proof (cases "map_of kvs (PStr i)")
    case None
    then show ?thesis
      using all by (simp add: nts at_key_def node_table_def list_all_update)
  next
    case (Some e)
    with all have "is_plain_dict e"
      using map_of_list_all [of "\<lambda>kv. is_plain_dict (snd kv)" kvs "PStr i" e] by simp
    then obtain d where "e = PDict d" by (cases e) auto
    with Some all show ?thesis
      by (simp add: nts at_key_def node_table_def list_all_update)
  qed
qed

lemma node_summary_body_cases:
  assumes "node_table nts"
  shows "(\<exists>e. object_store_percent (raylet n) = Inl e \<and> node_summary_body M n nts = Inl e) \<or>
         (\<exists>p nts'. object_store_percent (raylet n) = Inr p \<and>
                    node_summary_body M n nts = Inr nts' \<and> node_table nts')"
proof -
  let ?i = "nodeId (raylet n)"
  obtain n1 where 1: "at_key nts (PStr ?i) (\<lambda>e. store e (PStr ''cpu'')
      (PStr (str_num M (cpu n) @ ''%''))) = Inr n1" and t1: "node_table n1"
    using node_table_store [OF assms] by blast
  obtain n2 where 2: "at_key n1 (PStr ?i) (\<lambda>e. store e (PStr ''disk_utilization'')
      (PStr (str_num M (disk_root_percent n) @ ''%''))) = Inr n2" and t2: "node_table n2"
    using node_table_store [OF t1] by blast
  obtain n3 where 3: "at_key n2 (PStr ?i) (\<lambda>e. store e (PStr ''disk_read'')
      (PStr (str_num M (round3 M (fst (diskIoSpeed n) / of_int (1024 XOR 2))) @ '' MB''))) = Inr n3"
    and t3: "node_table n3"
    using node_table_store [OF t2] by blast
  obtain n4 where 4: "at_key n3 (PStr ?i) (\<lambda>e. store e (PStr ''disk_write'')
      (PStr (str_num M (round3 M (snd (diskIoSpeed n) / of_int (1024 XOR 2))) @ '' MB''))) = Inr n4"
    and t4: "node_table n4"
    using node_table_store [OF t3] by blast
  obtain n5 where 5: "at_key n4 (PStr ?i) (\<lambda>e. store e (PStr ''network_sent_speed'')
      (PStr (str_num M (round3 M (fst (networkSpeed n) / 1024)) @ '' KB''))) = Inr n5"
    and t5: "node_table n5"
    using node_table_store [OF t4] by blast
  obtain n6 where 6: "at_key n5 (PStr ?i) (\<lambda>e. store e (PStr ''network_recv_speed'')
      (PStr (str_num M (round3 M (snd (networkSpeed n) / 1024)) @ '' KB''))) = Inr n6"
    and t6: "node_table n6"
    using node_table_store [OF t5] by blast
  obtain n7 where 7: "at_key n6 (PStr ?i) (\<lambda>e. store e (PStr ''mem_utilization'')
      (PStr (str_num M (mem2 n) @ ''%''))) = Inr n7" and t7: "node_table n7"
    using node_table_store [OF t6] by blast
  have body: "node_summary_body M n nts =
      ebind (object_store_percent (raylet n)) (\<lambda>percent.
        at_key n7 (PStr ?i) (\<lambda>e. store e (PStr ''object_store_utilization'')
          (PStr (str_num M (round3 M (percent * 100)) @ ''%''))))"
    unfolding node_summary_body_def Let_def
    by (simp only: 1 2 3 4 5 6 7 ebind_simps)
  show ?thesis
  proof (cases "object_store_percent (raylet n)")
    case (Inl e)
    then show ?thesis by (simp add: body)
  next
    case (Inr p)
    obtain n8 where "at_key n7 (PStr ?i) (\<lambda>e. store e (PStr ''object_store_utilization'')
        (PStr (str_num M (round3 M (p * 100)) @ ''%''))) = Inr n8" "node_table n8"
      using node_table_store [OF t7] by blast
    with Inr show ?thesis by (simp add: body)
  qed
qed

lemma object_store_percent_zero:
  assumes "object_store_used_memory r = None \<or> object_store_used_memory r = Some 0"
    and "object_store_available_memory r = Some 0"
  shows "object_store_percent r = Inl ZeroDivisionError"
  using assms by (auto simp: object_store_percent_def py_truediv_def)

lemma object_store_percent_error:
  assumes "object_store_available_memory r \<noteq> None" and "object_store_percent r = Inl e"
  shows "e = ZeroDivisionError"
  using assms by (auto simp: object_store_percent_def py_truediv_def Let_def split: if_splits)

lemma node_loop_zero_division:
  assumes "node_table nts"
    and "\<forall>n\<in>set nodes. object_store_available_memory (raylet n) \<noteq> None"
    and "\<exists>n\<in>set nodes. object_store_percent (raylet n) = Inl ZeroDivisionError"
  shows "efold (node_summary_body M) nodes nts = Inl ZeroDivisionError"
  using assms
proof (induction nodes arbitrary: nts)
  case Nil
  then show ?case by simp
next
  case (Cons n nodes)
  from node_summary_body_cases [OF Cons.prems(1), of n M]
  show ?case
  proof (elim disjE exE conjE)
    fix e
    assume e: "object_store_percent (raylet n) = Inl e" "node_summary_body M n nts = Inl e"
    with Cons.prems(2) have "e = ZeroDivisionError"
      using object_store_percent_error [of "raylet n" e] by simp
    with e show ?thesis by simp
  next
    fix p nts'
    assume p: "object_store_percent (raylet n) = Inr p"
      "node_summary_body M n nts = Inr nts'" "node_table nts'"
    from p(1) Cons.prems(3)
    have "\<exists>n\<in>set nodes. object_store_percent (raylet n) = Inl ZeroDivisionError" by auto
    with Cons.IH [OF p(3)] Cons.prems(2) p(2) show ?thesis by simp
  qed
qed

text \<open>
  Claim C10. When the three list operations of the summary return and the resource
  summary provider returns node summaries that all carry the available object store
  memory, a node summary whose used memory is zero or absent and whose available memory
  is zero makes \<^verbatim>\<open>summary\<close> raise \<^verbatim>\<open>ZeroDivisionError\<close>: the division of lines 416 to 421
  is not guarded, and no degraded result is returned.
\<close>

theorem summary_zero_division:
  assumes "list_actors client M \<lparr>limit = 1000, timeout = 30, filter_string = ''''\<rparr> = Inr actors"
    and "list_tasks client M \<lparr>limit = 1000, timeout = 30, filter_string = ''''\<rparr> = Inr tasks"
    and "list_workers client M \<lparr>limit = 1000, timeout = 30, filter_string = ''''\<rparr> = Inr workers"
    and "get_all_node_summary M = Inr all_node_summary"
    and "\<forall>n\<in>set all_node_summary. object_store_available_memory (raylet n) \<noteq> None"
    and "node_summary \<in> set all_node_summary"
    and "object_store_used_memory (raylet node_summary) = None \<or>
         object_store_used_memory (raylet node_summary) = Some 0"
    and "object_store_available_memory (raylet node_summary) = Some 0"
  shows "summary client M = Inl ZeroDivisionError"
proof -
  have z: "\<exists>n\<in>set all_node_summary. object_store_percent (raylet n) = Inl ZeroDivisionError"
    using assms(6-8) object_store_percent_zero by blast
  have t: "node_table (PDefaultDict (PDict []) [])"
    by (simp add: node_table_def)
  have "efold (node_summary_body M) all_node_summary (PDefaultDict (PDict []) []) =
        Inl ZeroDivisionError"
    using node_loop_zero_division [OF t assms(5) z] .
  then show ?thesis
    by (simp add: summary_def Let_def gather_def assms(1-4))
qed

text \<open>A summary over two nodes of which the second has an empty object store.\<close>

theorem summary_zero_division_witness:
  "summary example_client (example_collaborators\<lparr>get_all_node_summary := Inr zero_store_nodes\<rparr>)
     = Inl ZeroDivisionError"
proof -
  let ?M = "example_collaborators\<lparr>get_all_node_summary := Inr zero_store_nodes\<rparr>"
  let ?op = "\<lparr>limit = 1000, timeout = 30, filter_string = ''''\<rparr>"
  have a: "list_actors example_client ?M ?op = Inr \<lparr>data = PDict [], warnings = None\<rparr>"
    by code_simp
  have t: "list_tasks example_client ?M ?op = Inr \<lparr>data = PDict [], warnings = None\<rparr>"
    by code_simp
  have w: "list_workers example_client ?M ?op = Inr \<lparr>data = PDict [], warnings = None\<rparr>"
    by code_simp
  have g: "get_all_node_summary ?M = Inr zero_store_nodes"
    by simp
  have p: "\<forall>n\<in>set zero_store_nodes. object_store_available_memory (raylet n) \<noteq> None"
    by (simp add: zero_store_nodes_def)
  have m: "zero_store_nodes ! 1 \<in> set zero_store_nodes"
    by (simp add: zero_store_nodes_def)
  have u: "object_store_used_memory (raylet (zero_store_nodes ! 1)) = None \<or>
           object_store_used_memory (raylet (zero_store_nodes ! 1)) = Some 0"
    by (simp add: zero_store_nodes_def)
  have v: "object_store_available_memory (raylet (zero_store_nodes ! 1)) = Some 0"
    by (simp add: zero_store_nodes_def)
  show ?thesis
    by (rule summary_zero_division [OF a t w g p m u v])
qed

section \<open>Sorting, truncation and the identifier\<close>

lemma emap_all_ok:
  "\<forall>x\<in>set xs. \<exists>y. f x = Inr y \<Longrightarrow> emap f xs = Inr (map (\<lambda>x. projr (f x)) xs)"
  by (induction xs) auto

lemma emap_keys:
  assumes "\<forall>d\<in>set ds. \<exists>s. getitem d (PStr k) = Inr (PStr s)"
  shows "emap (\<lambda>entry. getitem entry (PStr k)) ds = Inr (map (key_of k) ds)"
proof -
  have "\<forall>d\<in>set ds. \<exists>y. getitem d (PStr k) = Inr y"
    using assms by blast
  then have "emap (\<lambda>entry. getitem entry (PStr k)) ds =
             Inr (map (\<lambda>d. projr (getitem d (PStr k))) ds)"
    by (rule emap_all_ok)
  moreover have "map (\<lambda>d. projr (getitem d (PStr k))) ds = map (key_of k) ds"
    using assms by (auto simp: key_of_def)
  ultimately show ?thesis by simp
qed

lemma insort_key_zip:
  assumes "\<forall>p\<in>set ps. fst p = h (snd p)"
  shows "map snd (insort_key (\<lambda>p. g (fst p)) (h x, x) ps) =
         insort_key (\<lambda>x. g (h x)) x (map snd ps)"
  using assms by (induction ps) auto

lemma sort_key_zip:
  "map snd (sort_key (\<lambda>p. g (fst p)) (zip (map h xs) xs)) = sort_key (\<lambda>x. g (h x)) xs"
proof (induction xs)
  case Nil
  then show ?case by simp
next
  case (Cons x xs)
  have inv: "\<forall>p\<in>set (sort_key (\<lambda>p. g (fst p)) (zip (map h xs) xs)). fst p = h (snd p)"
    by (auto simp: set_zip)
  show ?case
    using Cons.IH insort_key_zip [OF inv, of g x] by (simp add: sort_key_def)
qed

lemma sort_key_short: "length xs \<le> 1 \<Longrightarrow> sort_key f xs = xs"
  by (cases xs) (auto simp: sort_key_def)

lemma list_sort_strings:
  assumes "\<forall>d\<in>set ds. \<exists>s. getitem d (PStr k) = Inr (PStr s)"
  shows "list_sort (PStr k) ds = Inr (sort_key (\<lambda>d. the_str (key_of k d)) ds)"
proof -
  have s: "list_all is_str (map (key_of k) ds)"
    using assms by (auto simp: list_all_iff key_of_def)
  show ?thesis
    unfolding list_sort_def emap_keys [OF assms]
    using s by (simp add: sort_key_zip sort_key_short)
qed

lemma update_fresh: "k \<notin> fst ` set al \<Longrightarrow> AList.update k v al = al @ [(k, v)]"
  by (induction al) auto

lemma dict_by_distinct:
  assumes "\<forall>d\<in>set ds. \<exists>s. getitem d (PStr k) = Inr (PStr s)"
    and "distinct (map (key_of k) ds)"
    and "\<forall>d\<in>set ds. key_of k d \<notin> fst ` set acc"
  shows "dict_by (PStr k) ds acc = Inr (acc @ map (\<lambda>d. (key_of k d, d)) ds)"
  using assms
proof (induction ds arbitrary: acc)
  case Nil
  then show ?case by simp
next
  case (Cons d ds)
  from Cons.prems(1) obtain s where s: "getitem d (PStr k) = Inr (PStr s)" by auto
  then have kd: "key_of k d = PStr s" by (simp add: key_of_def)
  have fresh: "PStr s \<notin> fst ` set acc" using Cons.prems(3) kd by auto
  have step: "setitem acc (PStr s) d = Inr (acc @ [(PStr s, d)])"
    using fresh by (simp add: setitem_def update_fresh)
  have rest: "\<forall>d'\<in>set ds. key_of k d' \<notin> fst ` set (acc @ [(PStr s, d)])"
  proof
    fix d' assume d': "d' \<in> set ds"
    then have "key_of k d' \<noteq> PStr s"
      using Cons.prems(2) kd by (auto simp: image_iff)
    moreover have "key_of k d' \<notin> fst ` set acc"
      using Cons.prems(3) d' by simp
    ultimately show "key_of k d' \<notin> fst ` set (acc @ [(PStr s, d)])" by simp
  qed
  have "dict_by (PStr k) ds (acc @ [(PStr s, d)]) =
        Inr ((acc @ [(PStr s, d)]) @ map (\<lambda>d. (key_of k d, d)) ds)"
    using Cons.IH [OF _ _ rest] Cons.prems(1,2) by simp
  then show ?case
    by (simp add: s step kd)
qed

lemma distinct_map_insort_key:
  "distinct (map f (insort_key g x xs)) \<longleftrightarrow> f x \<notin> f ` set xs \<and> distinct (map f xs)"
  by (induction xs) (auto simp: set_insort_key)

lemma distinct_map_sort_key:
  "distinct (map f (sort_key g xs)) \<longleftrightarrow> distinct (map f xs)"
  by (induction xs) (auto simp: distinct_map_insort_key)

lemma distinct_map_take: "distinct (map f xs) \<Longrightarrow> distinct (map f (take n xs))"
  by (metis distinct_take take_map)

text \<open>
  Claim C6, as amended. Every keyed list operation that takes the limit (actors,
  placement groups, nodes, workers, tasks, objects) ends in \<open>filter_sort_limit\<close>. When
  the records that pass the filter carry pairwise distinct string identifiers and the
  limit \<open>L\<close> is not negative, the data is the dictionary of the first \<open>L\<close> filtered
  records in the order of their identifiers, so it has \<open>min L (count after filter)\<close>
  entries: none for \<open>L = 0\<close>, all of them when \<open>L\<close> is at least the count. The records
  are truncated after they are filtered and sorted.
\<close>

theorem limit_after_filter_and_sort:
  assumes "filter_kv (filter_string option) (PList result) = Inr kept"
    and "\<forall>d\<in>set kept. \<exists>s. getitem d (PStr k) = Inr (PStr s)"
    and "distinct (map (key_of k) kept)"
    and "0 \<le> limit option"
  shows "\<exists>kvs. filter_sort_limit k option result warns = Inr \<lparr>data = PDict kvs, warnings = warns\<rparr> \<and>
           kvs = map (\<lambda>d. (key_of k d, d))
                   (take (nat (limit option)) (sort_key (\<lambda>d. the_str (key_of k d)) kept)) \<and>
           length kvs = min (nat (limit option)) (length kept)"
proof -
  let ?sorted = "sort_key (\<lambda>d. the_str (key_of k d)) kept"
  let ?sliced = "take (nat (limit option)) ?sorted"
  have sl: "islice ?sorted (limit option) = Inr ?sliced"
    using assms(4) by (simp add: islice_def)
  have ok: "\<forall>d\<in>set ?sliced. \<exists>s. getitem d (PStr k) = Inr (PStr s)"
    using assms(2) by (auto dest: in_set_takeD)
  have di: "distinct (map (key_of k) ?sliced)"
    using assms(3) by (simp add: distinct_map_sort_key distinct_map_take)
  have db: "dict_by (PStr k) ?sliced [] = Inr (map (\<lambda>d. (key_of k d, d)) ?sliced)"
    using dict_by_distinct [OF ok di, of "[]"] by simp
  have "filter_sort_limit k option result warns =
        Inr \<lparr>data = PDict (map (\<lambda>d. (key_of k d, d)) ?sliced), warnings = warns\<rparr>"
    by (simp add: filter_sort_limit_def assms(1) list_sort_strings [OF assms(2)] sl db)
  then show ?thesis by simp
qed

text \<open>
  Three actors, the filter \<open>state=ALIVE\<close> and the limit 1: the smaller identifier of the
  two that pass the filter is returned.
\<close>

theorem limit_after_filter_and_sort_witness:
  "list_actors
     (example_client\<lparr>get_all_actor_info := (\<lambda>t. Inr (Some
        [foo_actor ''a3'' ''ALIVE'', foo_actor ''a1'' ''ALIVE'', foo_actor ''a2'' ''DEAD'']))\<rparr>)
     example_collaborators \<lparr>limit = 1, timeout = 30, filter_string = ''state=ALIVE''\<rparr>
   = Inr \<lparr>data = PDict [(PStr ''a1'', PDict (foo_actor ''a1'' ''ALIVE''))], warnings = None\<rparr>"
  using limit_after_filter_and_sort
    [of "\<lparr>limit = 1, timeout = 30, filter_string = ''state=ALIVE''\<rparr>"
        "[PDict (foo_actor ''a3'' ''ALIVE''), PDict (foo_actor ''a1'' ''ALIVE''), PDict (foo_actor ''a2'' ''DEAD'')]"
        "[PDict (foo_actor ''a3'' ''ALIVE''), PDict (foo_actor ''a1'' ''ALIVE'')]"
        "''actor_id''" None]
  by (simp add: example_client_def example_collaborators_def list_actors_def
      message_to_dict_method_def filter_kv_def foo_actor_def key_of_def getitem_def)

text \<open>
  Claim C6 as stated fails when two records share the identifier: the memory table has
  one entry per worker that holds a reference, so two entries for the object \<open>o1\<close>
  pass the empty filter under limit 10, and the data has one entry, not two.
\<close>

theorem duplicate_identifier_counterexample:
  "list_objects
     (example_client
        \<lparr>get_all_registered_raylet_ids := [''n1''],
         get_object_info := (\<lambda>node_id t. Inr (Some
           [[(PStr ''object_ref'', PStr ''o1''), (PStr ''pid'', PInt 1)],
            [(PStr ''object_ref'', PStr ''o1''), (PStr ''pid'', PInt 2)]]))\<rparr>)
     example_collaborators \<lparr>limit = 10, timeout = 30, filter_string = ''''\<rparr>
   = Inr \<lparr>data = PDict [(PStr ''o1'', PDict [(PStr ''pid'', PInt 2), (PStr ''object_id'', PStr ''o1'')])],
          warnings = None\<rparr>"
  by code_simp

lemma matched_loop_subset:
  "matched_loop kvf xs acc = Inr r \<Longrightarrow> set r \<subseteq> set acc \<union> set xs"
proof (induction xs arbitrary: acc)
  case Nil
  then show ?case by simp
next
  case (Cons x xs)
  then show ?case
    by (fastforce split: sum.splits if_splits)
qed

lemma filter_kv_subset:
  "filter_kv f (PList xs) = Inr kept \<Longrightarrow> set kept \<subseteq> set xs"
  using matched_loop_subset [of _ xs "[]" kept]
  by (auto simp: filter_kv_def Let_def)

lemma emap_first_error:
  assumes "\<forall>x\<in>set xs. f x = Inl e \<or> (\<exists>y. f x = Inr y)" and "\<exists>x\<in>set xs. f x = Inl e"
  shows "emap f xs = Inl e"
  using assms
proof (induction xs)
  case Nil
  then show ?case by simp
next
  case (Cons x xs)
  show ?case
  proof (cases "f x")
    case (Inl e')
    with Cons.prems(1) show ?thesis by auto
  next
    case (Inr y)
    with Cons.prems have "emap f xs = Inl e"
      by (intro Cons.IH) auto
    with Inr show ?thesis by simp
  qed
qed

lemma getitem_dict:
  "getitem (PDict d) (PStr k) =
     (case map_of d (PStr k) of None \<Rightarrow> Inl (KeyError (PStr k)) | Some v \<Rightarrow> Inr v)"
  by (simp add: getitem_def split: option.splits)

text \<open>
  Claim C8, as amended. No list operation drops a record: a record that passes the
  filter and lacks the identifier field makes the sort of \<open>filter_sort_limit\<close>, the
  tail of every keyed list operation, raise \<^verbatim>\<open>KeyError\<close>, so the operation raises and
  returns none of the other records either.
\<close>

theorem missing_identifier_raises:
  assumes "filter_kv (filter_string option) (PList (map PDict records)) = Inr kept"
    and "PDict d \<in> set kept"
    and "map_of d (PStr k) = None"
  shows "filter_sort_limit k option (map PDict records) warns = Inl (KeyError (PStr k))"
proof -
  have sub: "set kept \<subseteq> PDict ` set records"
    using filter_kv_subset [OF assms(1)] by simp
  have all: "\<forall>x\<in>set kept. getitem x (PStr k) = Inl (KeyError (PStr k)) \<or>
                            (\<exists>y. getitem x (PStr k) = Inr y)"
    using sub by (auto simp: getitem_dict split: option.splits)
  have one: "\<exists>x\<in>set kept. getitem x (PStr k) = Inl (KeyError (PStr k))"
    using assms(2,3) by (force simp: getitem_dict)
  have "emap (\<lambda>entry. getitem entry (PStr k)) kept = Inl (KeyError (PStr k))"
    using emap_first_error [OF all one] .
  then show ?thesis
    by (simp add: filter_sort_limit_def assms(1) list_sort_def)
qed

text \<open>Two actors pass the filter; the second has no \<open>actor_id\<close>.\<close>

theorem missing_identifier_raises_witness:
  "list_actors
     (example_client\<lparr>get_all_actor_info := (\<lambda>t. Inr (Some
        [foo_actor ''a1'' ''ALIVE'', [(PStr ''class_name'', PStr ''Foo''), (PStr ''state'', PStr ''ALIVE'')]]))\<rparr>)
     example_collaborators \<lparr>limit = 10, timeout = 30, filter_string = ''state=ALIVE''\<rparr>
   = Inl (KeyError (PStr ''actor_id''))"
  using missing_identifier_raises
    [of "\<lparr>limit = 10, timeout = 30, filter_string = ''state=ALIVE''\<rparr>"
        "[foo_actor ''a1'' ''ALIVE'', [(PStr ''class_name'', PStr ''Foo''), (PStr ''state'', PStr ''ALIVE'')]]"
        "[PDict (foo_actor ''a1'' ''ALIVE''), PDict [(PStr ''class_name'', PStr ''Foo''), (PStr ''state'', PStr ''ALIVE'')]]"
        "[(PStr ''class_name'', PStr ''Foo''), (PStr ''state'', PStr ''ALIVE'')]"
        "''actor_id''" None]
  by (simp add: example_client_def example_collaborators_def list_actors_def
      message_to_dict_method_def filter_kv_def foo_actor_def)

text \<open>
  Claim C8 as stated fails: of two tasks the second has no \<open>task_id\<close>, and the task
  list operation raises \<^verbatim>\<open>KeyError\<close> instead of returning the first.
\<close>

theorem missing_identifier_counterexample:
  "list_tasks
     (example_client
        \<lparr>get_all_registered_raylet_ids := [''n1''],
         get_task_info := (\<lambda>node_id t. Inr (Some
           [[(PStr ''task_id'', PStr ''A''), (PStr ''name'', PStr ''f'')],
            [(PStr ''name'', PStr ''g'')]]))\<rparr>)
     example_collaborators \<lparr>limit = 10, timeout = 30, filter_string = ''''\<rparr>
   = Inl (KeyError (PStr ''task_id''))"
  by code_simp

section \<open>Partial failure of the peers\<close>

lemma emap_append:
  "emap f (xs @ ys) =
     (case emap f xs of
        Inl e \<Rightarrow> Inl e
      | Inr a \<Rightarrow> (case emap f ys of Inl e \<Rightarrow> Inl e | Inr b \<Rightarrow> Inr (a @ b)))"
  by (induction xs) (auto split: sum.splits)

lemma list_tasks_loop_eq:
  "list_tasks_loop M replies nf result =
     (case emap (\<lambda>task.
              ebind (message_to_dict_method M task [''task_id''] True) (\<lambda>d.
              ebind (filter_fields M d TaskState) (\<lambda>d. Inr (PDict d))))
            (concat (map messages_of replies)) of
        Inl e \<Rightarrow> Inl e
      | Inr ds \<Rightarrow> Inr (nf + length (filter (\<lambda>r. r = None) replies), result @ ds))"
proof (induction replies arbitrary: nf result)
  case Nil
  then show ?case by simp
next
  case (Cons reply replies)
  show ?case
  proof (cases reply)
    case None
    show ?thesis unfolding None by (simp add: Cons.IH split: sum.splits)
  next
    case (Some ms)
    show ?thesis unfolding Some
      by (simp add: Cons.IH emap_append ebind_def split: sum.splits)
  qed
qed

lemma list_objects_loop_eq:
  "list_objects_loop M replies nf worker_stats =
     (case emap (\<lambda>core_worker_stat.
              message_to_dict_method M core_worker_stat [''object_id''] False)
            (concat (map messages_of replies)) of
        Inl e \<Rightarrow> Inl e
      | Inr ds \<Rightarrow> Inr (nf + length (filter (\<lambda>r. r = None) replies), worker_stats @ ds))"
proof (induction replies arbitrary: nf worker_stats)
  case Nil
  then show ?case by simp
next
  case (Cons reply replies)
  show ?case
  proof (cases reply)
    case None
    show ?thesis unfolding None by (simp add: Cons.IH split: sum.splits)
  next
    case (Some ms)
    show ?thesis unfolding Some
      by (simp add: Cons.IH emap_append ebind_def split: sum.splits)
  qed
qed

lemma list_runtime_envs_loop_eq:
  "list_runtime_envs_loop M replies nf result =
     (case emap (\<lambda>state.
              ebind (message_to_dict_method M state [] True) (\<lambda>d.
              ebind (getitem (PDict d) (PStr ''runtime_env'')) (\<lambda>serialized.
              ebind (runtime_env_to_dict M serialized) (\<lambda>runtime_env.
              ebind (setitem d (PStr ''runtime_env'') runtime_env) (\<lambda>d.
              ebind (filter_fields M d RuntimeEnvState) (\<lambda>d. Inr (PDict d)))))))
            (concat (map messages_of replies)) of
        Inl e \<Rightarrow> Inl e
      | Inr ds \<Rightarrow> Inr (nf + length (filter (\<lambda>r. r = None) replies), result @ ds))"
proof (induction replies arbitrary: nf result)
  case Nil
  then show ?case by simp
next
  case (Cons reply replies)
  show ?case
  proof (cases reply)
    case None
    show ?thesis unfolding None by (simp add: Cons.IH split: sum.splits)
  next
    case (Some ms)
    show ?thesis unfolding Some
      by (simp add: Cons.IH emap_append ebind_def split: sum.splits)
  qed
qed

lemma gather_replies:
  assumes "\<forall>n\<in>set ids. \<not> isl (call n)"
  shows "gather (map call ids) = Inr (map (\<lambda>n. projr (call n)) ids)"
  using gather_no_raise [of "map call ids"] assms by (simp add: comp_def)

lemma messages_of_answered:
  assumes "\<forall>n\<in>set ids. \<not> isl (call n)"
  shows "concat (map messages_of (map (\<lambda>n. projr (call n)) [n \<leftarrow> ids. call n \<noteq> Inr None])) =
         concat (map messages_of (map (\<lambda>n. projr (call n)) ids))"
  using assms
proof (induction ids)
  case Nil
  then show ?case by simp
next
  case (Cons n ids)
  then show ?case by (cases "call n") auto
qed

lemma no_failures_answered:
  assumes "\<forall>n\<in>set ids. \<not> isl (call n)"
  shows "filter (\<lambda>r. r = None) (map (\<lambda>n. projr (call n)) [n \<leftarrow> ids. call n \<noteq> Inr None]) = []"
  using assms
proof (induction ids)
  case Nil
  then show ?case by simp
next
  case (Cons n ids)
  then show ?case by (cases "call n") auto
qed

lemma failures_counted:
  assumes "\<forall>n\<in>set ids. \<not> isl (call n)"
  shows "length (filter (\<lambda>r. r = None) (map (\<lambda>n. projr (call n)) ids)) =
         length [n \<leftarrow> ids. call n = Inr None]"
  using assms
proof (induction ids)
  case Nil
  then show ?case by simp
next
  case (Cons n ids)
  then show ?case by (cases "call n") auto
qed

lemma filter_sort_limit_warnings:
  "filter_sort_limit k option result warns =
     (case filter_sort_limit k option result None of
        Inl e \<Rightarrow> Inl e
      | Inr r \<Rightarrow> Inr \<lparr>data = data r, warnings = warns\<rparr>)"
  by (simp add: filter_sort_limit_def ebind_def split: sum.splits)

lemma list_tasks_answered:
  assumes "\<forall>n\<in>set (get_all_registered_raylet_ids client). \<not> isl (get_task_info client n (timeout option))"
  shows "list_tasks client M option =
     (case emap (\<lambda>task.
              ebind (message_to_dict_method M task [''task_id''] True) (\<lambda>d.
              ebind (filter_fields M d TaskState) (\<lambda>d. Inr (PDict d))))
            (concat (map messages_of (map (\<lambda>n. projr (get_task_info client n (timeout option)))
               (get_all_registered_raylet_ids client)))) of
        Inl e \<Rightarrow> Inl e
      | Inr ds \<Rightarrow>
          filter_sort_limit ''task_id'' option ds
            (if [n \<leftarrow> get_all_registered_raylet_ids client.
                   get_task_info client n (timeout option) = Inr None] = [] then None
             else Some [RAYLET_QUERY_FAILURE_WARNING (length (get_all_registered_raylet_ids client))
                    (length [n \<leftarrow> get_all_registered_raylet_ids client.
                               get_task_info client n (timeout option) = Inr None])]))"
proof -
  let ?ids = "get_all_registered_raylet_ids client"
  let ?call = "\<lambda>n. get_task_info client n (timeout option)"
  let ?replies = "map (\<lambda>n. projr (?call n)) ?ids"
  let ?failed = "[n \<leftarrow> ?ids. ?call n = Inr None]"
  have g: "gather (map ?call ?ids) = Inr ?replies"
    using gather_replies [of ?ids ?call] assms by simp
  have c: "length (filter (\<lambda>r. r = None) ?replies) = length ?failed"
    using failures_counted [of ?ids ?call] assms by simp
  have z: "(length ?failed \<noteq> 0) = (?failed \<noteq> [])"
    by simp
  show ?thesis
    unfolding list_tasks_def Let_def g ebind_simps list_tasks_loop_eq c add_0 z
    by (cases "?failed = []") (simp_all split: sum.splits)
qed

lemma list_objects_answered:
  assumes "\<forall>n\<in>set (get_all_registered_raylet_ids client). \<not> isl (get_object_info client n (timeout option))"
  shows "list_objects client M option =
     (case emap (\<lambda>core_worker_stat.
              message_to_dict_method M core_worker_stat [''object_id''] False)
            (concat (map messages_of (map (\<lambda>n. projr (get_object_info client n (timeout option)))
               (get_all_registered_raylet_ids client)))) of
        Inl e \<Rightarrow> Inl e
      | Inr worker_stats \<Rightarrow>
          ebind (construct_memory_table M worker_stats) (\<lambda>table.
          ebind (emap (\<lambda>entry.
                   ebind (getitem (PDict entry) (PStr ''object_ref'')) (\<lambda>object_ref.
                   ebind (setitem entry (PStr ''object_id'') object_ref) (\<lambda>d.
                   ebind (filter_fields M (AList.delete (PStr ''object_ref'') d) ObjectState) (\<lambda>d.
                     Inr (PDict d)))))
                 table) (\<lambda>result.
          filter_sort_limit ''object_id'' option result
            (if [n \<leftarrow> get_all_registered_raylet_ids client.
                   get_object_info client n (timeout option) = Inr None] = [] then None
             else Some [RAYLET_QUERY_FAILURE_WARNING (length (get_all_registered_raylet_ids client))
                    (length [n \<leftarrow> get_all_registered_raylet_ids client.
                               get_object_info client n (timeout option) = Inr None])]))))"
proof -
  let ?ids = "get_all_registered_raylet_ids client"
  let ?call = "\<lambda>n. get_object_info client n (timeout option)"
  let ?replies = "map (\<lambda>n. projr (?call n)) ?ids"
  let ?failed = "[n \<leftarrow> ?ids. ?call n = Inr None]"
  have g: "gather (map ?call ?ids) = Inr ?replies"
    using gather_replies [of ?ids ?call] assms by simp
  have c: "length (filter (\<lambda>r. r = None) ?replies) = length ?failed"
    using failures_counted [of ?ids ?call] assms by simp
  have z: "(length ?failed \<noteq> 0) = (?failed \<noteq> [])"
    by simp
  show ?thesis
    unfolding list_objects_def Let_def g ebind_simps list_objects_loop_eq c add_0 z
    by (cases "?failed = []") (simp_all split: sum.splits)
qed

lemma list_runtime_envs_answered:
  assumes "\<forall>n\<in>set (get_all_registered_agent_ids client). \<not> isl (get_runtime_envs_info client n (timeout option))"
  shows "list_runtime_envs client M option =
     (case emap (\<lambda>state.
              ebind (message_to_dict_method M state [] True) (\<lambda>d.
              ebind (getitem (PDict d) (PStr ''runtime_env'')) (\<lambda>serialized.
              ebind (runtime_env_to_dict M serialized) (\<lambda>runtime_env.
              ebind (setitem d (PStr ''runtime_env'') runtime_env) (\<lambda>d.
              ebind (filter_fields M d RuntimeEnvState) (\<lambda>d. Inr (PDict d)))))))
            (concat (map messages_of (map (\<lambda>n. projr (get_runtime_envs_info client n (timeout option)))
               (get_all_registered_agent_ids client)))) of
        Inl e \<Rightarrow> Inl e
      | Inr result \<Rightarrow>
          ebind (filter_kv (filter_string option) (PList result)) (\<lambda>result.
          ebind (list_sort (PStr ''ref_cnt'') result) (\<lambda>result.
          ebind (islice result (limit option)) (\<lambda>sliced.
            Inr \<lparr>data = PList sliced,
                 warnings =
                   (if [n \<leftarrow> get_all_registered_agent_ids client.
                          get_runtime_envs_info client n (timeout option) = Inr None] = [] then None
                    else Some [AGENT_QUERY_FAILURE_WARNING (length (get_all_registered_agent_ids client))
                           (length [n \<leftarrow> get_all_registered_agent_ids client.
                                      get_runtime_envs_info client n (timeout option) = Inr None])])\<rparr>))))"
proof -
  let ?ids = "get_all_registered_agent_ids client"
  let ?call = "\<lambda>n. get_runtime_envs_info client n (timeout option)"
  let ?replies = "map (\<lambda>n. projr (?call n)) ?ids"
  let ?failed = "[n \<leftarrow> ?ids. ?call n = Inr None]"
  have g: "gather (map ?call ?ids) = Inr ?replies"
    using gather_replies [of ?ids ?call] assms by simp
  have c: "length (filter (\<lambda>r. r = None) ?replies) = length ?failed"
    using failures_counted [of ?ids ?call] assms by simp
  have z: "(length ?failed \<noteq> 0) = (?failed \<noteq> [])"
    by simp
  show ?thesis
    unfolding list_runtime_envs_def Let_def g ebind_simps list_runtime_envs_loop_eq c add_0 z
    by (cases "?failed = []") (simp_all split: sum.splits)
qed

lemma answered_no_failure: "[n \<leftarrow> [n \<leftarrow> ids. call n \<noteq> Inr None]. call n = Inr None] = []"
  by (induction ids) auto

text \<open>
  Claim C2. In a fan-out list operation (tasks, objects, runtime environments) where no
  sub-request raises, let \<open>T\<close> be the number of registered peers and \<open>F\<close> the number
  of those whose reply is falsy. The operation behaves as it does when only the \<open>T - F\<close>
  peers that replied are registered, except for the warnings: it raises the same
  exception or returns the same data, which therefore holds records of the peers that
  replied only, and the warnings are \<^verbatim>\<open>None\<close> when \<open>F = 0\<close> and otherwise the single
  warning formatted with \<open>total = T\<close> and \<open>network_failures = F\<close>.
\<close>

theorem fanout_partial_failure:
  "((\<forall>n\<in>set (get_all_registered_raylet_ids client).
        \<not> isl (get_task_info client n (timeout option))) \<longrightarrow>
      list_tasks client M option =
        (case list_tasks
                (client\<lparr>get_all_registered_raylet_ids :=
                   [n \<leftarrow> get_all_registered_raylet_ids client.
                      get_task_info client n (timeout option) \<noteq> Inr None]\<rparr>) M option of
           Inl e \<Rightarrow> Inl e
         | Inr r \<Rightarrow>
             Inr \<lparr>data = data r,
                  warnings =
                    (if [n \<leftarrow> get_all_registered_raylet_ids client.
                           get_task_info client n (timeout option) = Inr None] = [] then None
                     else Some [RAYLET_QUERY_FAILURE_WARNING
                            (length (get_all_registered_raylet_ids client))
                            (length [n \<leftarrow> get_all_registered_raylet_ids client.
                                       get_task_info client n (timeout option) = Inr None])])\<rparr>)) \<and>
   ((\<forall>n\<in>set (get_all_registered_raylet_ids client).
        \<not> isl (get_object_info client n (timeout option))) \<longrightarrow>
      list_objects client M option =
        (case list_objects
                (client\<lparr>get_all_registered_raylet_ids :=
                   [n \<leftarrow> get_all_registered_raylet_ids client.
                      get_object_info client n (timeout option) \<noteq> Inr None]\<rparr>) M option of
           Inl e \<Rightarrow> Inl e
         | Inr r \<Rightarrow>
             Inr \<lparr>data = data r,
                  warnings =
                    (if [n \<leftarrow> get_all_registered_raylet_ids client.
                           get_object_info client n (timeout option) = Inr None] = [] then None
                     else Some [RAYLET_QUERY_FAILURE_WARNING
                            (length (get_all_registered_raylet_ids client))
                            (length [n \<leftarrow> get_all_registered_raylet_ids client.
                                       get_object_info client n (timeout option) = Inr None])])\<rparr>)) \<and>
   ((\<forall>n\<in>set (get_all_registered_agent_ids client).
        \<not> isl (get_runtime_envs_info client n (timeout option))) \<longrightarrow>
      list_runtime_envs client M option =
        (case list_runtime_envs
                (client\<lparr>get_all_registered_agent_ids :=
                   [n \<leftarrow> get_all_registered_agent_ids client.
                      get_runtime_envs_info client n (timeout option) \<noteq> Inr None]\<rparr>) M option of
           Inl e \<Rightarrow> Inl e
         | Inr r \<Rightarrow>
             Inr \<lparr>data = data r,
                  warnings =
                    (if [n \<leftarrow> get_all_registered_agent_ids client.
                           get_runtime_envs_info client n (timeout option) = Inr None] = [] then None
                     else Some [AGENT_QUERY_FAILURE_WARNING
                            (length (get_all_registered_agent_ids client))
                            (length [n \<leftarrow> get_all_registered_agent_ids client.
                                       get_runtime_envs_info client n (timeout option) = Inr None])])\<rparr>))"
proof (intro conjI impI)
  let ?ids = "get_all_registered_raylet_ids client"
  let ?call = "\<lambda>n. get_task_info client n (timeout option)"
  let ?client' = "client\<lparr>get_all_registered_raylet_ids := [n \<leftarrow> ?ids. ?call n \<noteq> Inr None]\<rparr>"
  assume a: "\<forall>n\<in>set ?ids. \<not> isl (?call n)"
  then have a': "\<forall>n\<in>set (get_all_registered_raylet_ids ?client').
                   \<not> isl (get_task_info ?client' n (timeout option))"
    by simp
  have m: "concat (map messages_of (map (\<lambda>n. projr (?call n)) [n \<leftarrow> ?ids. ?call n \<noteq> Inr None])) =
           concat (map messages_of (map (\<lambda>n. projr (?call n)) ?ids))"
    using messages_of_answered [of ?ids ?call] a by simp
  note full = list_tasks_answered [OF a]
  note part = list_tasks_answered [OF a']
  show "list_tasks client M option =
        (case list_tasks ?client' M option of
           Inl e \<Rightarrow> Inl e
         | Inr r \<Rightarrow>
             Inr \<lparr>data = data r,
                  warnings =
                    (if [n \<leftarrow> ?ids. ?call n = Inr None] = [] then None
                     else Some [RAYLET_QUERY_FAILURE_WARNING (length ?ids)
                            (length [n \<leftarrow> ?ids. ?call n = Inr None])])\<rparr>)"
    unfolding full part
    by (simp add: m answered_no_failure filter_sort_limit_def ebind_def
        del: map_map split: sum.splits)
next
  let ?ids = "get_all_registered_raylet_ids client"
  let ?call = "\<lambda>n. get_object_info client n (timeout option)"
  let ?client' = "client\<lparr>get_all_registered_raylet_ids := [n \<leftarrow> ?ids. ?call n \<noteq> Inr None]\<rparr>"
  assume a: "\<forall>n\<in>set ?ids. \<not> isl (?call n)"
  then have a': "\<forall>n\<in>set (get_all_registered_raylet_ids ?client').
                   \<not> isl (get_object_info ?client' n (timeout option))"
    by simp
  have m: "concat (map messages_of (map (\<lambda>n. projr (?call n)) [n \<leftarrow> ?ids. ?call n \<noteq> Inr None])) =
           concat (map messages_of (map (\<lambda>n. projr (?call n)) ?ids))"
    using messages_of_answered [of ?ids ?call] a by simp
  note full = list_objects_answered [OF a]
  note part = list_objects_answered [OF a']
  show "list_objects client M option =
        (case list_objects ?client' M option of
           Inl e \<Rightarrow> Inl e
         | Inr r \<Rightarrow>
             Inr \<lparr>data = data r,
                  warnings =
                    (if [n \<leftarrow> ?ids. ?call n = Inr None] = [] then None
                     else Some [RAYLET_QUERY_FAILURE_WARNING (length ?ids)
                            (length [n \<leftarrow> ?ids. ?call n = Inr None])])\<rparr>)"
    unfolding full part
    by (simp add: m answered_no_failure filter_sort_limit_def ebind_def
        del: map_map split: sum.splits)
next
  let ?ids = "get_all_registered_agent_ids client"
  let ?call = "\<lambda>n. get_runtime_envs_info client n (timeout option)"
  let ?client' = "client\<lparr>get_all_registered_agent_ids := [n \<leftarrow> ?ids. ?call n \<noteq> Inr None]\<rparr>"
  assume a: "\<forall>n\<in>set ?ids. \<not> isl (?call n)"
  then have a': "\<forall>n\<in>set (get_all_registered_agent_ids ?client').
                   \<not> isl (get_runtime_envs_info ?client' n (timeout option))"
    by simp
  have m: "concat (map messages_of (map (\<lambda>n. projr (?call n)) [n \<leftarrow> ?ids. ?call n \<noteq> Inr None])) =
           concat (map messages_of (map (\<lambda>n. projr (?call n)) ?ids))"
    using messages_of_answered [of ?ids ?call] a by simp
  note full = list_runtime_envs_answered [OF a]
  note part = list_runtime_envs_answered [OF a']
  show "list_runtime_envs client M option =
        (case list_runtime_envs ?client' M option of
           Inl e \<Rightarrow> Inl e
         | Inr r \<Rightarrow>
             Inr \<lparr>data = data r,
                  warnings =
                    (if [n \<leftarrow> ?ids. ?call n = Inr None] = [] then None
                     else Some [AGENT_QUERY_FAILURE_WARNING (length ?ids)
                            (length [n \<leftarrow> ?ids. ?call n = Inr None])])\<rparr>)"
    unfolding full part
    by (simp add: m answered_no_failure ebind_def
        del: map_map split: sum.splits)
qed

text \<open>
  The example of the specification: of three peers the second does not reply; the data
  holds the records of the first and the third, sorted, and the warning carries 3 and 1.
\<close>

theorem fanout_partial_failure_witness:
  "list_tasks partial_client example_collaborators \<lparr>limit = 10, timeout = 30, filter_string = ''''\<rparr>
     = Inr \<lparr>data = PDict
              [(PStr ''A'', PDict [(PStr ''task_id'', PStr ''A''), (PStr ''scheduling_state'', PStr ''FINISHED'')]),
               (PStr ''B'', PDict [(PStr ''task_id'', PStr ''B''), (PStr ''scheduling_state'', PStr ''SCHEDULED'')])],
            warnings = Some [RAYLET_QUERY_FAILURE_WARNING 3 1]\<rparr> \<and>
   list_objects partial_client example_collaborators \<lparr>limit = 10, timeout = 30, filter_string = ''''\<rparr>
     = Inr \<lparr>data = PDict
              [(PStr ''o0'', PDict [(PStr ''object_id'', PStr ''o0'')]),
               (PStr ''o1'', PDict [(PStr ''object_id'', PStr ''o1'')])],
            warnings = Some [RAYLET_QUERY_FAILURE_WARNING 3 1]\<rparr> \<and>
   list_runtime_envs partial_client example_collaborators \<lparr>limit = 10, timeout = 30, filter_string = ''''\<rparr>
     = Inr \<lparr>data = PList
              [PDict [(PStr ''runtime_env'', PStr ''{}''), (PStr ''ref_cnt'', PInt 1)],
               PDict [(PStr ''runtime_env'', PStr ''{}''), (PStr ''ref_cnt'', PInt 2)]],
            warnings = Some [AGENT_QUERY_FAILURE_WARNING 3 1]\<rparr>"
proof -
  let ?op = "\<lparr>limit = 10, timeout = 30, filter_string = ''''\<rparr>"
  have t: "\<forall>n\<in>set (get_all_registered_raylet_ids partial_client).
             \<not> isl (get_task_info partial_client n (timeout ?op))"
    by (simp add: partial_client_def example_client_def)
  have o: "\<forall>n\<in>set (get_all_registered_raylet_ids partial_client).
             \<not> isl (get_object_info partial_client n (timeout ?op))"
    by (simp add: partial_client_def example_client_def)
  have r: "\<forall>n\<in>set (get_all_registered_agent_ids partial_client).
             \<not> isl (get_runtime_envs_info partial_client n (timeout ?op))"
    by (simp add: partial_client_def example_client_def)
  from fanout_partial_failure [of partial_client ?op example_collaborators] t o r
  show ?thesis
    by (simp add: partial_client_def example_client_def example_collaborators_def
        list_tasks_def list_objects_def list_runtime_envs_def gather_def
        message_to_dict_method_def filter_sort_limit_def filter_kv_def list_sort_def
        islice_def getitem_def setitem_def numeral_3_eq_3)
qed

end
